theory Spec2Isabelle
  imports Main "HOL-Library.Word"
begin

section \<open>Values shared by all files of the step\<close>

type_synonym byte = "8 word"

text \<open>
  Go errors. \<open>EOF\<close> is the sentinel \<^verbatim>\<open>io.EOF\<close>, which the code compares with
  \<^verbatim>\<open>==\<close>; \<open>Lib\<close> is an error of a library or of the operating system, known only by
  its message. Every other constructor is one \<^verbatim>\<open>fmt.Errorf\<close> or \<^verbatim>\<open>errors.New\<close> of the
  repository; the wrapped error is the \<^verbatim>\<open>%s\<close> argument of the format string.
\<close>

datatype error =
    EOF
  | Lib string
  | FailedOpenLocal error       \<comment> \<open>Failed to open the local cache file for write: %s\<close>
  | FailedRequest error         \<comment> \<open>Failed to create cache download request: %s\<close>
  | NonSuccessCode int          \<comment> \<open>Failed to download archive - non success response code: %d\<close>
  | FailedSave error            \<comment> \<open>Failed to save cache content into file: %s\<close>
  | FailedCreateRequest error   \<comment> \<open>Failed to create request: %s\<close>
  | FailedSendRequest error     \<comment> \<open>Failed to send request: %s\<close>
  | FailedReadBody int "byte list"   \<comment> \<open>Request sent, but failed to read response body (http-code:%d): %s\<close>
  | CacheNotFound               \<comment> \<open>Build cache not found. Probably cache not initialised yet ...\<close>
  | FailedParseJSON int "byte list"  \<comment> \<open>Request sent, but failed to parse JSON response (http-code:%d): %s\<close>
  | EmptyDownloadURL int "byte list" \<comment> \<open>Request sent, but Download URL is empty (http-code:%d): %s\<close>
  | FailedUncompress error      \<comment> \<open>Failed to uncompress cache archive, error was: %s\<close>
  | FailedTempDir error         \<comment> \<open>[!] Failed to create temp directory for cache infos: %s\<close>
  | FailedOpenArchive string error   \<comment> \<open>Failed to open Archive file (%s): %s\<close>
  | FailedGzipInit error        \<comment> \<open>Failed to initialize Archive gzip reader: %s\<close>
  | FailedTarRead error         \<comment> \<open>Failed to read Archive, Tar error: %s\<close>
  | FailedCacheInfoJSON error   \<comment> \<open>Failed to read Cache Info JSON from Archive: %s\<close>
  | CacheInfoNotFound           \<comment> \<open>Did not find the required Cache Info file in the Archive\<close>
  | MakingDirForFile string error    \<comment> \<open>%s: making directory for file: %v\<close>
  | CreatingNewFile string error     \<comment> \<open>%s: creating new file: %v\<close>
  | ChangingFileMode string error    \<comment> \<open>%s: changing file mode: %v\<close>
  | WritingFile string error         \<comment> \<open>%s: writing file: %v\<close>
  | MakingSymlink string error       \<comment> \<open>%s: making symbolic link for: %v\<close>
  | MakingHardLink string error      \<comment> \<open>%s: making hard link for: %v\<close>
  | MakingDirectory string error     \<comment> \<open>%s: making directory: %v\<close>
  | UnknownTypeFlag string byte      \<comment> \<open>%s: unknown type flag: %c\<close>

text \<open>
  A readable stream that is already given: the bytes it delivers, then end of file
  (\<open>serr = None\<close>) or a read error.
\<close>

record stream =
  sdata :: "byte list"
  serr :: "error option"

section \<open>Paths: path/filepath of the Go library on a Unix system\<close>

text \<open>
  \<^verbatim>\<open>filepath.Clean\<close>, \<^verbatim>\<open>filepath.Dir\<close> and \<^verbatim>\<open>filepath.Join\<close> belong to the Go library.
  They are purely lexical; the model works on the path's components.
\<close>

fun splitc :: "char \<Rightarrow> string \<Rightarrow> string list" where
  "splitc c [] = [[]]"
| "splitc c (x # xs) =
     (if x = c then [] # splitc c xs
      else (case splitc c xs of [] \<Rightarrow> [[x]] | y # ys \<Rightarrow> (x # y) # ys))"

fun joinc :: "string list \<Rightarrow> string" where
  "joinc [] = []"
| "joinc [x] = x"
| "joinc (x # y # ys) = x @ ''/'' @ joinc (y # ys)"

text \<open>One element of the path; \<open>out\<close> holds the cleaned elements, the last one first.\<close>

definition clean_step :: "bool \<Rightarrow> string list \<Rightarrow> string \<Rightarrow> string list" where
  "clean_step rooted out el =
     (if el = [] \<or> el = ''.'' then out
      else if el = ''..'' then
        (case out of
           [] \<Rightarrow> (if rooted then [] else [''..''])
         | t # ts \<Rightarrow> (if t = ''..'' then ''..'' # out else ts))
      else el # out)"

definition Clean :: "string \<Rightarrow> string" where
  "Clean path =
     (if path = [] then ''.''
      else
        (let rooted = (hd path = CHR ''/'');
             out = rev (foldl (clean_step rooted) [] (splitc (CHR ''/'') path))
         in if rooted then CHR ''/'' # joinc out
            else if out = [] then ''.'' else joinc out))"

definition Dir :: "string \<Rightarrow> string" where
  "Dir path = Clean (rev (dropWhile (\<lambda>c. c \<noteq> CHR ''/'') (rev path)))"

text \<open>\<^verbatim>\<open>filepath.Join(a, b)\<close>: empty elements are ignored, the rest is joined and cleaned.\<close>

definition Join :: "string \<Rightarrow> string \<Rightarrow> string" where
  "Join a b =
     (if a \<noteq> [] then Clean (a @ ''/'' @ b)
      else if b \<noteq> [] then Clean b
      else [])"

section \<open>RestoreReader\<close>

text \<open>
  Modelled from the spec: the type \<^verbatim>\<open>RestoreReader\<close> with \<^verbatim>\<open>NewRestoreReader\<close>, \<^verbatim>\<open>Read\<close>
  and \<^verbatim>\<open>Restore\<close>, which \<^verbatim>\<open>readFirstEntry\<close> of archive.go uses and whose file is not
  among the sources. The spec (4.1, 9) describes a two-phase buffer over a single-pass
  source: while probing, every byte read is recorded in a queue; \<^verbatim>\<open>restore()\<close> makes
  the next reads return the queue first and then the rest of the source; a second
  \<^verbatim>\<open>restore()\<close> is a fatal programming error.

  \<open>source\<close> holds the bytes the underlying reader has not delivered yet, \<open>queue\<close> the
  bytes recorded while probing, \<open>replay\<close> the recorded bytes still to be replayed.
\<close>

record RestoreReader =
  source :: "byte list"
  queue :: "byte list"
  replay :: "byte list"
  restored :: bool

text \<open>Modelled from the spec: a fresh reader on a source with the bytes \<open>S\<close>.\<close>

definition NewRestoreReader :: "byte list \<Rightarrow> RestoreReader" where
  "NewRestoreReader S = \<lparr>source = S, queue = [], replay = [], restored = False\<rparr>"

text \<open>
  Modelled from the spec: a sequential read of at most \<open>n\<close> bytes. Replayed bytes come
  first; bytes taken from the source are recorded until the reader is restored.
\<close>

definition Read :: "nat \<Rightarrow> RestoreReader \<Rightarrow> byte list \<times> RestoreReader" where
  "Read n rr =
     (let fromReplay = take n (replay rr);
          fromSource = take (n - length (replay rr)) (source rr)
      in (fromReplay @ fromSource,
          rr\<lparr>replay := drop n (replay rr),
             source := drop (n - length (replay rr)) (source rr),
             queue := (if restored rr then queue rr else queue rr @ fromSource)\<rparr>))"

text \<open>Modelled from the spec: \<open>None\<close> is the fatal error of a second \<^verbatim>\<open>restore()\<close>.\<close>

definition Restore :: "RestoreReader \<Rightarrow> RestoreReader option" where
  "Restore rr =
     (if restored rr then None
      else Some (rr\<lparr>replay := queue rr, queue := [], restored := True\<rparr>))"

text \<open>Modelled from the spec: reading until end of file.\<close>

definition ReadAll :: "RestoreReader \<Rightarrow> byte list \<times> RestoreReader" where
  "ReadAll rr = Read (length (replay rr) + length (source rr)) rr"

text \<open>Successive reads with the given sizes; the result is everything they returned.\<close>

fun Reads :: "nat list \<Rightarrow> RestoreReader \<Rightarrow> byte list \<times> RestoreReader" where
  "Reads [] rr = ([], rr)"
| "Reads (n # ns) rr =
     (case Read n rr of (p, rr1) \<Rightarrow>
        (case Reads ns rr1 of (q, rr2) \<Rightarrow> (p @ q, rr2)))"

section \<open>The archive libraries as parameters\<close>

text \<open>A tar header, with the fields the step reads.\<close>

record header =
  Typeflag :: byte
  Name :: string
  Linkname :: string
  Mode :: nat

text \<open>
  \<^verbatim>\<open>*tar.Reader\<close>: the entries not yet returned by \<^verbatim>\<open>Next\<close> with their payloads, and
  how the archive ends after them (\<open>None\<close>: \<^verbatim>\<open>io.EOF\<close>).
\<close>

record tar_reader =
  entries :: "(header \<times> stream) list"
  tail_err :: "error option"

text \<open>\<^verbatim>\<open>CacheContentModel\<close> and \<^verbatim>\<open>CacheInfosModel\<close> of main.go.\<close>

record CacheContentModel =
  DestinationPath :: string
  RelativePathInArchive :: string

record CacheInfosModel =
  Fingerprint :: string
  Contents :: "CacheContentModel list"

text \<open>
  compress/gzip, archive/tar and encoding/json are not code of the repository.
  \<open>gz_probe S\<close> is the number of bytes \<^verbatim>\<open>gzip.NewReader\<close> reads from a source with
  content \<open>S\<close> before it returns, \<open>gz_open S\<close> its result: the error, or the
  decompressed stream. \<open>tar_parse\<close> is \<^verbatim>\<open>tar.NewReader\<close> on a stream.
  \<open>json_cache_info\<close> decodes a \<^verbatim>\<open>CacheInfosModel\<close>, \<open>json_download_url\<close> decodes the
  field \<^verbatim>\<open>download_url\<close> of \<^verbatim>\<open>GenerateDownloadURLRespModel\<close> (empty when absent).
\<close>

record codec =
  gz_probe :: "byte list \<Rightarrow> nat"
  gz_open :: "byte list \<Rightarrow> error + stream"
  tar_parse :: "stream \<Rightarrow> tar_reader"
  json_cache_info :: "stream \<Rightarrow> error + CacheInfosModel"
  json_download_url :: "byte list \<Rightarrow> error + string"

text \<open>\<^verbatim>\<open>tr.Next()\<close>.\<close>

definition Next :: "tar_reader \<Rightarrow> error + (header \<times> stream \<times> tar_reader)" where
  "Next tr =
     (case entries tr of
        [] \<Rightarrow> (case tail_err tr of None \<Rightarrow> Inl EOF | Some e \<Rightarrow> Inl e)
      | (h, d) # es \<Rightarrow> Inr (h, d, tr\<lparr>entries := es\<rparr>))"

text \<open>
  \<^verbatim>\<open>gzip.NewReader(restoreReader)\<close>: the library reads \<open>gz_probe\<close> bytes through the
  reader and decides on the content.
\<close>

definition gzip_NewReader :: "codec \<Rightarrow> RestoreReader \<Rightarrow> (error + stream) \<times> RestoreReader" where
  "gzip_NewReader c rr =
     (let S = replay rr @ source rr
      in (gz_open c S, snd (Read (gz_probe c S) rr)))"

section \<open>The operating system and the network\<close>

text \<open>\<^verbatim>\<open>StepParamsModel\<close> of the step that asks the cache API for the download URL.\<close>

record StepParamsModel =
  CacheAPIURL :: string
  IsDebugMode :: bool

text \<open>An argument of a format string.\<close>

datatype arg =
    AStr string
  | AErr error
  | ABytes "byte list"
  | AInt int
  | AStrs "string list"
  | AItem CacheContentModel
  | AParams StepParamsModel

datatype closable = File string | RespBody | GzipReader

text \<open>
  What the program does to the outside, in the order it does it. \<open>Log\<close> is a line of
  \<^verbatim>\<open>log.Printf\<close>, \<^verbatim>\<open>log.Println\<close> or \<^verbatim>\<open>log.Fatalf\<close> with its format string and
  arguments, \<open>Sleep\<close> counts milliseconds, \<open>RunCmd\<close> has the working directory (when
  one is set), the command and its arguments.
\<close>

datatype event =
    Log string "arg list"
  | Println
  | OsCreate string
  | OsOpen string
  | Close closable
  | HttpGet string
  | ClientDo string
  | Sleep nat
  | OsMkdirAll string nat
  | OsRename string string
  | OsLink string string
  | OsSymlink string string
  | Chmod string nat
  | TempDir string
  | RunCmd "string option" string "string list"

record response =
  StatusCode :: int
  Body :: stream

text \<open>
  The outside world decides how each call ends. Every outcome may depend on all that
  happened before (the events so far), so that a second attempt can end differently
  from the first. \<open>write_fail\<close> is \<open>Some (n, e)\<close> when writing to the file fails with
  \<open>e\<close> once \<open>n\<close> bytes are written.
\<close>

record env =
  getenv :: "string \<Rightarrow> string"
  goos :: string
  create_err :: "event list \<Rightarrow> string \<Rightarrow> error option"
  open_err :: "event list \<Rightarrow> string \<Rightarrow> error option"
  close_err :: "event list \<Rightarrow> closable \<Rightarrow> error option"
  write_fail :: "event list \<Rightarrow> string \<Rightarrow> (nat \<times> error) option"
  chmod_err :: "event list \<Rightarrow> string \<Rightarrow> error option"
  http_get :: "event list \<Rightarrow> string \<Rightarrow> error + response"
  new_request_err :: "string \<Rightarrow> error option"
  client_do :: "event list \<Rightarrow> string \<Rightarrow> error + response"
  mkdirall_err :: "event list \<Rightarrow> string \<Rightarrow> error option"
  rename_err :: "event list \<Rightarrow> string \<Rightarrow> string \<Rightarrow> error option"
  link_err :: "event list \<Rightarrow> string \<Rightarrow> string \<Rightarrow> error option"
  symlink_err :: "event list \<Rightarrow> string \<Rightarrow> string \<Rightarrow> error option"
  tempdir :: "event list \<Rightarrow> string \<Rightarrow> error + string"
  run_cmd :: "event list \<Rightarrow> string option \<Rightarrow> string \<Rightarrow> string list \<Rightarrow> string \<times> error option"

text \<open>
  The state the program changes: the regular files by path, the events so far, and the
  package variable \<^verbatim>\<open>gIsDebugMode\<close>.
\<close>

record world =
  files :: "string \<rightharpoonup> byte list"
  events :: "event list"
  gIsDebugMode :: bool

definition emit :: "event \<Rightarrow> world \<Rightarrow> world" where
  "emit e w = w\<lparr>events := events w @ [e]\<rparr>"

text \<open>Lines guarded by \<^verbatim>\<open>if gIsDebugMode\<close>.\<close>

definition debugLog :: "string \<Rightarrow> arg list \<Rightarrow> world \<Rightarrow> world" where
  "debugLog fmt args w = (if gIsDebugMode w then emit (Log fmt args) w else w)"

text \<open>\<^verbatim>\<open>os.Create\<close>: the file exists and is empty afterwards, unless the call fails.\<close>

definition os_Create :: "env \<Rightarrow> string \<Rightarrow> world \<Rightarrow> error option \<times> world" where
  "os_Create ev p w =
     (case create_err ev (events w) p of
        Some e \<Rightarrow> (Some e, emit (OsCreate p) w)
      | None \<Rightarrow> (None, emit (OsCreate p) (w\<lparr>files := (files w)(p \<mapsto> [])\<rparr>)))"

text \<open>\<^verbatim>\<open>os.Open\<close>: the content of the file, when it can be opened.\<close>

definition os_Open :: "env \<Rightarrow> string \<Rightarrow> world \<Rightarrow> (error + byte list) \<times> world" where
  "os_Open ev p w =
     (case open_err ev (events w) p of
        Some e \<Rightarrow> (Inl e, emit (OsOpen p) w)
      | None \<Rightarrow>
          (case files w p of
             None \<Rightarrow> (Inl (Lib (''open '' @ p @ '': no such file or directory'')), emit (OsOpen p) w)
           | Some d \<Rightarrow> (Inr d, emit (OsOpen p) w)))"

text \<open>A deferred \<^verbatim>\<open>Close\<close> whose error is only logged, with the format of the log line.\<close>

definition closeLogged :: "env \<Rightarrow> closable \<Rightarrow> string \<Rightarrow> arg list \<Rightarrow> world \<Rightarrow> world" where
  "closeLogged ev x fmt args w =
     (case close_err ev (events w) x of
        None \<Rightarrow> emit (Close x) w
      | Some e \<Rightarrow> emit (Log fmt (args @ [AErr e])) (emit (Close x) w))"

text \<open>
  \<^verbatim>\<open>io.Copy(out, in)\<close> into the file at \<open>p\<close>, which is written from its end: the bytes
  of \<open>src\<close> are appended until the write fails or the stream ends; a read error of the
  stream comes after its bytes are written.
\<close>

definition io_Copy :: "env \<Rightarrow> string \<Rightarrow> stream \<Rightarrow> world \<Rightarrow> error option \<times> world" where
  "io_Copy ev p src w =
     (let old = (case files w p of None \<Rightarrow> [] | Some c \<Rightarrow> c);
          d = sdata src
      in case write_fail ev (events w) p of
           None \<Rightarrow> (serr src, w\<lparr>files := (files w)(p \<mapsto> old @ d)\<rparr>)
         | Some (n, e) \<Rightarrow>
             (if n < length d then (Some e, w\<lparr>files := (files w)(p \<mapsto> old @ take n d)\<rparr>)
              else (serr src, w\<lparr>files := (files w)(p \<mapsto> old @ d)\<rparr>)))"

definition os_MkdirAll :: "env \<Rightarrow> string \<Rightarrow> nat \<Rightarrow> world \<Rightarrow> error option \<times> world" where
  "os_MkdirAll ev p perm w = (mkdirall_err ev (events w) p, emit (OsMkdirAll p perm) w)"

definition os_Rename :: "env \<Rightarrow> string \<Rightarrow> string \<Rightarrow> world \<Rightarrow> error option \<times> world" where
  "os_Rename ev old new w = (rename_err ev (events w) old new, emit (OsRename old new) w)"

definition os_Link :: "env \<Rightarrow> string \<Rightarrow> string \<Rightarrow> world \<Rightarrow> error option \<times> world" where
  "os_Link ev old new w = (link_err ev (events w) old new, emit (OsLink old new) w)"

definition os_Symlink :: "env \<Rightarrow> string \<Rightarrow> string \<Rightarrow> world \<Rightarrow> error option \<times> world" where
  "os_Symlink ev old new w = (symlink_err ev (events w) old new, emit (OsSymlink old new) w)"

text \<open>The permission bits \<^verbatim>\<open>0755\<close>.\<close>

definition perm0755 :: nat where
  "perm0755 = 7 * 64 + 5 * 8 + 5"

section \<open>The download: downloadFile and downloadFileWithRetry\<close>

text \<open>
  \<^verbatim>\<open>downloadFile\<close>, the same text in both versions of main.go. The deferred closes run
  when the function returns, the response body first.
\<close>

definition closeOut :: "env \<Rightarrow> string \<Rightarrow> world \<Rightarrow> world" where
  "closeOut ev localPath w =
     closeLogged ev (File localPath) '' [!] Failed to close Archive download file (%s): %s''
       [AStr localPath] w"

definition closeBody :: "env \<Rightarrow> world \<Rightarrow> world" where
  "closeBody ev w =
     closeLogged ev RespBody '' [!] Failed to close Archive download response body: %s'' [] w"

definition downloadFile :: "env \<Rightarrow> string \<Rightarrow> string \<Rightarrow> world \<Rightarrow> error option \<times> world" where
  "downloadFile ev url localPath w =
     (case os_Create ev localPath w of
        (Some err, w1) \<Rightarrow> (Some (FailedOpenLocal err), w1)
      | (None, w1) \<Rightarrow>
          (case http_get ev (events w1) url of
             Inl err \<Rightarrow> (Some (FailedRequest err), closeOut ev localPath (emit (HttpGet url) w1))
           | Inr resp \<Rightarrow>
               (let w2 = emit (HttpGet url) w1
                in if StatusCode resp \<noteq> 200 then
                     (let w3 = (case serr (Body resp) of
                                  Some err \<Rightarrow> emit (Log '' (!) Failed to read response body: %s'' [AErr err]) w2
                                | None \<Rightarrow> w2);
                          w4 = emit (Log '' ==> (!) Response content: %s'' [ABytes (sdata (Body resp))]) w3
                      in (Some (NonSuccessCode (StatusCode resp)),
                          closeOut ev localPath (closeBody ev w4)))
                   else
                     (case io_Copy ev localPath (Body resp) w2 of
                        (Some err, w3) \<Rightarrow>
                          (Some (FailedSave err), closeOut ev localPath (closeBody ev w3))
                      | (None, w3) \<Rightarrow> (None, closeOut ev localPath (closeBody ev w3))))))"

text \<open>What both versions do between the two attempts.\<close>

definition beforeRetry :: "world \<Rightarrow> world" where
  "beforeRetry w =
     emit (Sleep 3000)
       (emit Println
          (emit (Log '' ===> (!) First download attempt failed, retrying...'' [])
             (emit Println w)))"

text \<open>\<^verbatim>\<open>downloadFileWithRetry(url, localPath)\<close> of main.go.\<close>

definition downloadFileWithRetry :: "env \<Rightarrow> string \<Rightarrow> string \<Rightarrow> world \<Rightarrow> error option \<times> world" where
  "downloadFileWithRetry ev url localPath w =
     (case downloadFile ev url localPath w of
        (Some err, w1) \<Rightarrow> downloadFile ev url localPath (beforeRetry w1)
      | (None, w1) \<Rightarrow> (None, w1))"

section \<open>archive.go\<close>

text \<open>The three results of \<^verbatim>\<open>readFirstEntry\<close>: \<^verbatim>\<open>(*tar.Reader, *tar.Header, error)\<close>.\<close>

type_synonym first_entry = "tar_reader option \<times> header option \<times> error option"

text \<open>Lines 65 to 75: open the tar reader on the chosen stream and read one entry.\<close>

definition firstOf :: "codec \<Rightarrow> stream \<Rightarrow> first_entry" where
  "firstOf c archive =
     (case Next (tar_parse c archive) of
        Inl e \<Rightarrow> (if e = EOF then (None, None, None) else (None, None, Some e))
      | Inr (hdr, d, tr) \<Rightarrow> (Some tr, Some hdr, None))"

text \<open>The debug lines of lines 53 to 59 when the archive does not open as gzip.\<close>

definition gzipFailedLog :: "error \<Rightarrow> event list" where
  "gzipFailedLog err =
     [Log ''attempt to read archive as .gzip'' [],
      Log ''failed to open the archive as .gzip: %s'' [AErr err],
      Log ''restoring reader and trying as .tar'' []]"

text \<open>
  \<^verbatim>\<open>readFirstEntry\<close>. The result is \<open>None\<close> when \<^verbatim>\<open>Restore\<close> stops the program; the
  second component holds the lines of \<^verbatim>\<open>log.Debugf\<close>, in order.
\<close>

definition readFirstEntry :: "codec \<Rightarrow> byte list \<Rightarrow> first_entry option \<times> event list" where
  "readFirstEntry c r =
     (let restoreReader = NewRestoreReader r
      in case gzip_NewReader c restoreReader of
           (Inr archive, rr1) \<Rightarrow>
             (Some (firstOf c archive), [Log ''attempt to read archive as .gzip'' []])
         | (Inl err, rr1) \<Rightarrow>
             (case Restore rr1 of
                None \<Rightarrow> (None, gzipFailedLog err)
              | Some rr2 \<Rightarrow>
                  (Some (firstOf c \<lparr>sdata = fst (ReadAll rr2), serr = None\<rparr>),
                   gzipFailedLog err)))"

section \<open>The stack compatibility check\<close>

datatype decision = Proceed | Abort string string

text \<open>
  Modelled from the spec: the stack compatibility check (4.6), whose code is not among
  the sources. Equal identities, or an unset (empty) one on either side, proceed;
  different identities abort unless the fallback is allowed. The abort carries the two
  identities of the mismatch.
\<close>

definition check :: "string \<Rightarrow> string \<Rightarrow> bool \<Rightarrow> decision" where
  "check manifestStackId currentStackId allowFallback =
     (if manifestStackId = currentStackId \<or> manifestStackId = [] \<or> currentStackId = []
      then Proceed
      else if allowFallback then Proceed
      else Abort manifestStackId currentStackId)"

section \<open>main.go, the version that reads the manifest from a gzip archive\<close>

text \<open>
  The loop of \<^verbatim>\<open>readCacheInfoFromArchive\<close> (lines 85 to 103) over the entries of the
  archive; the JSON decoder reads the payload of the entry it stands on.
\<close>

function scanCacheInfo :: "codec \<Rightarrow> tar_reader \<Rightarrow> error + CacheInfosModel" where
  "scanCacheInfo c tarReader =
     (case Next tarReader of
        Inl err \<Rightarrow> (if err = EOF then Inl CacheInfoNotFound else Inl (FailedTarRead err))
      | Inr (hdr, payload, tr') \<Rightarrow>
          (if Name hdr = ''./cache-info.json'' then
             (case json_cache_info c payload of
                Inl err \<Rightarrow> Inl (FailedCacheInfoJSON err)
              | Inr cacheInfos \<Rightarrow> Inr cacheInfos)
           else scanCacheInfo c tr'))"
  by pat_completeness auto
termination
  by (relation "measure (\<lambda>(c, tr). length (entries tr))")
     (auto simp: Next_def split: list.splits option.splits)

declare scanCacheInfo.simps [simp del]

definition closeArchiveFile :: "env \<Rightarrow> string \<Rightarrow> world \<Rightarrow> world" where
  "closeArchiveFile ev pth w =
     closeLogged ev (File pth) '' [!] Failed to close Archive file (%s): %s'' [AStr pth] w"

definition closeGzip :: "env \<Rightarrow> string \<Rightarrow> world \<Rightarrow> world" where
  "closeGzip ev pth w =
     closeLogged ev GzipReader '' [!] Failed to close Archive gzip reader(%s): %s'' [AStr pth] w"

text \<open>\<^verbatim>\<open>readCacheInfoFromArchive\<close>: the file is opened as gzip, with no other attempt.\<close>

definition readCacheInfoFromArchive ::
  "env \<Rightarrow> codec \<Rightarrow> string \<Rightarrow> world \<Rightarrow> (error + CacheInfosModel) \<times> world" where
  "readCacheInfoFromArchive ev c archiveFilePth w =
     (case os_Open ev archiveFilePth w of
        (Inl err, w1) \<Rightarrow> (Inl (FailedOpenArchive archiveFilePth err), w1)
      | (Inr f, w1) \<Rightarrow>
          (case gz_open c f of
             Inl err \<Rightarrow> (Inl (FailedGzipInit err), closeArchiveFile ev archiveFilePth w1)
           | Inr gzf \<Rightarrow>
               (scanCacheInfo c (tar_parse c gzf),
                closeArchiveFile ev archiveFilePth (closeGzip ev archiveFilePth w1))))"

text \<open>The loop of \<^verbatim>\<open>uncompressCaches\<close> (lines 134 to 153) over \<^verbatim>\<open>cacheInfo.Contents\<close>.\<close>

fun placeContents :: "env \<Rightarrow> string \<Rightarrow> CacheContentModel list \<Rightarrow> world \<Rightarrow> world" where
  "placeContents ev tmpCacheInfosDirPath [] w = w"
| "placeContents ev tmpCacheInfosDirPath (aCacheContentInfo # others) w =
     (let w1 = debugLog '' * aCacheContentInfo: %#v'' [AItem aCacheContentInfo] w;
          srcPath = Join tmpCacheInfosDirPath (RelativePathInArchive aCacheContentInfo);
          targetPath = DestinationPath aCacheContentInfo;
          targetBaseDir = Dir targetPath
      in case os_MkdirAll ev targetBaseDir perm0755 w1 of
           (Some err, w2) \<Rightarrow>
             placeContents ev tmpCacheInfosDirPath others
               (emit (Log '' [!] Failed to create base path (%s) for cache item (%s): %s''
                        [AStr targetBaseDir, AStr srcPath, AErr err]) w2)
         | (None, w2) \<Rightarrow>
             (case os_Rename ev srcPath targetPath
                     (emit (Log '' [MOVE]: %s => %s'' [AStr srcPath, AStr targetPath]) w2) of
                (Some err, w3) \<Rightarrow>
                  placeContents ev tmpCacheInfosDirPath others
                    (emit (Log '' [!] Failed to move cache item (%s) to it's place: %s''
                             [AStr srcPath, AErr err]) w3)
              | (None, w3) \<Rightarrow> placeContents ev tmpCacheInfosDirPath others w3))"

text \<open>
  \<^verbatim>\<open>uncompressCaches(cacheFilePath, cacheInfo)\<close> of this version: it returns the
  temporary directory, or an error.
\<close>

definition uncompressCaches ::
  "env \<Rightarrow> string \<Rightarrow> CacheInfosModel \<Rightarrow> world \<Rightarrow> (error + string) \<times> world" where
  "uncompressCaches ev cacheFilePath cacheInfo w =
     (case tempdir ev (events w) [] of
        Inl err \<Rightarrow> (Inl (FailedTempDir err), emit (TempDir []) w)
      | Inr tmpCacheInfosDirPath \<Rightarrow>
          (let w1 = debugLog ''=> tmpCacheInfosDirPath: %#v'' [AStr tmpCacheInfosDirPath]
                      (emit (TempDir []) w);
               tarCmdParams = [''-xvzf'', cacheFilePath];
               w2 = debugLog '' $ tar %s'' [AStrs tarCmdParams] w1;
               w3 = emit (RunCmd (Some tmpCacheInfosDirPath) ''tar'' tarCmdParams) w2
           in case run_cmd ev (events w2) (Some tmpCacheInfosDirPath) ''tar'' tarCmdParams of
                (fullOut, Some err) \<Rightarrow>
                  (Inl (FailedUncompress err),
                   emit (Log '' [!] Failed to uncompress cache archive, full output (stdout & stderr) was: %s''
                           [AStr fullOut]) w3)
              | (fullOut, None) \<Rightarrow>
                  (Inr tmpCacheInfosDirPath,
                   placeContents ev tmpCacheInfosDirPath (Contents cacheInfo) w3)))"

section \<open>main.go, the version that asks the cache API for the download URL\<close>

text \<open>The type flags of archive/tar, as the characters the format defines.\<close>

definition TypeReg :: byte where "TypeReg = 0x30"
definition TypeRegA :: byte where "TypeRegA = 0"
definition TypeLink :: byte where "TypeLink = 0x31"
definition TypeSymlink :: byte where "TypeSymlink = 0x32"
definition TypeChar :: byte where "TypeChar = 0x33"
definition TypeBlock :: byte where "TypeBlock = 0x34"
definition TypeDir :: byte where "TypeDir = 0x35"
definition TypeFifo :: byte where "TypeFifo = 0x36"

definition mkdir :: "env \<Rightarrow> string \<Rightarrow> world \<Rightarrow> error option \<times> world" where
  "mkdir ev dirPath w =
     (case os_MkdirAll ev dirPath perm0755 w of
        (Some err, w1) \<Rightarrow> (Some (MakingDirectory dirPath err), w1)
      | (None, w1) \<Rightarrow> (None, w1))"

text \<open>
  \<^verbatim>\<open>writeNewFile\<close>; \<open>fm\<close> is \<^verbatim>\<open>header.FileInfo().Mode()\<close>. The deferred
  \<^verbatim>\<open>out.Close()\<close> drops its error.
\<close>

definition writeNewFile :: "env \<Rightarrow> string \<Rightarrow> stream \<Rightarrow> nat \<Rightarrow> world \<Rightarrow> error option \<times> world" where
  "writeNewFile ev fpath inp fm w =
     (case os_MkdirAll ev (Dir fpath) perm0755 w of
        (Some err, w1) \<Rightarrow> (Some (MakingDirForFile fpath err), w1)
      | (None, w1) \<Rightarrow>
          (case os_Create ev fpath w1 of
             (Some err, w2) \<Rightarrow> (Some (CreatingNewFile fpath err), w2)
           | (None, w2) \<Rightarrow>
               (let err = chmod_err ev (events w2) fpath;
                    w3 = emit (Chmod fpath fm) w2
                in if err \<noteq> None \<and> goos ev \<noteq> ''windows''
                   then (map_option (ChangingFileMode fpath) err, emit (Close (File fpath)) w3)
                   else
                     (case io_Copy ev fpath inp w3 of
                        (Some err2, w4) \<Rightarrow>
                          (Some (WritingFile fpath err2), emit (Close (File fpath)) w4)
                      | (None, w4) \<Rightarrow> (None, emit (Close (File fpath)) w4)))))"

definition writeNewSymbolicLink :: "env \<Rightarrow> string \<Rightarrow> string \<Rightarrow> world \<Rightarrow> error option \<times> world" where
  "writeNewSymbolicLink ev fpath target w =
     (case os_MkdirAll ev (Dir fpath) perm0755 w of
        (Some err, w1) \<Rightarrow> (Some (MakingDirForFile fpath err), w1)
      | (None, w1) \<Rightarrow>
          (case os_Symlink ev target fpath w1 of
             (Some err, w2) \<Rightarrow> (Some (MakingSymlink fpath err), w2)
           | (None, w2) \<Rightarrow> (None, w2)))"

definition writeNewHardLink :: "env \<Rightarrow> string \<Rightarrow> string \<Rightarrow> world \<Rightarrow> error option \<times> world" where
  "writeNewHardLink ev fpath target w =
     (case os_MkdirAll ev (Dir fpath) perm0755 w of
        (Some err, w1) \<Rightarrow> (Some (MakingDirForFile fpath err), w1)
      | (None, w1) \<Rightarrow>
          (case os_Link ev target fpath w1 of
             (Some err, w2) \<Rightarrow> (Some (MakingHardLink fpath err), w2)
           | (None, w2) \<Rightarrow> (None, w2)))"

text \<open>
  \<^verbatim>\<open>untarFile(tr, header)\<close>; \<open>payload\<close> is what \<open>tr\<close> delivers for the entry. The
  cases are tried in the order of the \<^verbatim>\<open>switch\<close>.
\<close>

definition untarFile :: "env \<Rightarrow> stream \<Rightarrow> header \<Rightarrow> world \<Rightarrow> error option \<times> world" where
  "untarFile ev payload hdr w =
     (if Typeflag hdr = TypeDir then mkdir ev (Name hdr) w
      else if Typeflag hdr \<in> {TypeReg, TypeRegA, TypeChar, TypeBlock, TypeFifo}
        then writeNewFile ev (Name hdr) payload (Mode hdr) w
      else if Typeflag hdr = TypeSymlink
        then writeNewSymbolicLink ev (Name hdr) (Linkname hdr) w
      else if Typeflag hdr = TypeLink
        then writeNewHardLink ev (Name hdr) (Join (Name hdr) (Linkname hdr)) w
      else (Some (UnknownTypeFlag (Name hdr) (Typeflag hdr)), w))"

text \<open>\<^verbatim>\<open>getCacheDownloadURL\<close>; the client of the request has a timeout of 20 seconds.\<close>

definition getCacheDownloadURL ::
  "env \<Rightarrow> codec \<Rightarrow> string \<Rightarrow> world \<Rightarrow> (error + string) \<times> world" where
  "getCacheDownloadURL ev c cacheAPIURL w =
     (case new_request_err ev cacheAPIURL of
        Some err \<Rightarrow> (Inl (FailedCreateRequest err), w)
      | None \<Rightarrow>
          (case client_do ev (events w) cacheAPIURL of
             Inl err \<Rightarrow> (Inl (FailedSendRequest err), emit (ClientDo cacheAPIURL) w)
           | Inr resp \<Rightarrow>
               (let w1 = closeLogged ev RespBody
                           '' [!] Exception: Failed to close response body, error: %s'' []
                           (emit (ClientDo cacheAPIURL) w);
                    body = sdata (Body resp)
                in if serr (Body resp) \<noteq> None
                     then (Inl (FailedReadBody (StatusCode resp) body), w1)
                   else if StatusCode resp < 200 \<or> StatusCode resp > 202
                     then (Inl CacheNotFound, w1)
                   else
                     (case json_download_url c body of
                        Inl err \<Rightarrow> (Inl (FailedParseJSON (StatusCode resp) body), w1)
                      | Inr downloadURL \<Rightarrow>
                          (if downloadURL = []
                           then (Inl (EmptyDownloadURL (StatusCode resp) body), w1)
                           else (Inr downloadURL, w1))))))"

text \<open>\<^verbatim>\<open>downloadFileWithRetry(cacheAPIURL, localPath)\<close> of this version.\<close>

definition downloadFileWithRetry_api ::
  "env \<Rightarrow> codec \<Rightarrow> string \<Rightarrow> string \<Rightarrow> world \<Rightarrow> error option \<times> world" where
  "downloadFileWithRetry_api ev c cacheAPIURL localPath w =
     (case getCacheDownloadURL ev c cacheAPIURL w of
        (Inl err, w1) \<Rightarrow> (Some err, w1)
      | (Inr downloadURL, w1) \<Rightarrow>
          (let w2 = debugLog ''   [DEBUG] downloadURL: %s'' [AStr downloadURL] w1
           in case downloadFile ev downloadURL localPath w2 of
                (Some err, w3) \<Rightarrow> downloadFile ev downloadURL localPath (beforeRetry w3)
              | (None, w3) \<Rightarrow> (None, w3)))"

text \<open>\<^verbatim>\<open>uncompressCaches(cacheFilePath)\<close> of this version: the tar tool does the work.\<close>

definition uncompressCaches_api :: "env \<Rightarrow> string \<Rightarrow> world \<Rightarrow> error option \<times> world" where
  "uncompressCaches_api ev cacheFilePath w =
     (let tarCmdParams = [''-xPf'', cacheFilePath];
          w1 = debugLog '' $ tar %s'' [AStrs tarCmdParams] w;
          w2 = emit (RunCmd None ''tar'' tarCmdParams) w1
      in case run_cmd ev (events w1) None ''tar'' tarCmdParams of
           (fullOut, Some err) \<Rightarrow>
             (Some (FailedUncompress err),
              emit (Log '' [!] Failed to uncompress cache archive, full output (stdout & stderr) was: %s''
                      [AStr fullOut]) w2)
         | (fullOut, None) \<Rightarrow> (None, w2))"

definition CreateStepParamsFromEnvs :: "env \<Rightarrow> error + StepParamsModel" where
  "CreateStepParamsFromEnvs ev =
     Inr \<lparr>CacheAPIURL = getenv ev ''cache_api_url'',
          IsDebugMode = (getenv ev ''is_debug_mode'' = ''true'')\<rparr>"

text \<open>
  \<^verbatim>\<open>main\<close> of this version. The first component is the exit status of the process:
  \<^verbatim>\<open>log.Fatalf\<close> writes its line and exits with status 1, a return from \<^verbatim>\<open>main\<close>
  exits with status 0.
\<close>

definition main_api :: "env \<Rightarrow> codec \<Rightarrow> world \<Rightarrow> nat \<times> world" where
  "main_api ev c w =
     (let w0 = emit (Log ''Cache pull...'' []) w
      in case CreateStepParamsFromEnvs ev of
           Inl err \<Rightarrow> (1, emit (Log '' [!] Input error : %s'' [AErr err]) w0)
         | Inr stepParams \<Rightarrow>
             (let w1 = debugLog ''=> stepParams: %#v'' [AParams stepParams]
                         (w0\<lparr>gIsDebugMode := IsDebugMode stepParams\<rparr>)
              in if CacheAPIURL stepParams = [] then
                   (0, emit (Log '' (i) No Cache API URL specified, there's no cache to use, exiting.'' []) w1)
                 else
                   (let cacheArchiveFilePath = ''/tmp/cache-archive.tar''
                    in case downloadFileWithRetry_api ev c (CacheAPIURL stepParams)
                              cacheArchiveFilePath
                              (emit (Log ''=> Downloading Cache ...'' []) w1) of
                         (Some err, w2) \<Rightarrow>
                           (1, emit (Log '' [!] Unable to download cache: %s'' [AErr err]) w2)
                       | (None, w2) \<Rightarrow>
                           (case uncompressCaches_api ev cacheArchiveFilePath
                                   (emit (Log ''=> Uncompressing Cache ...'' [])
                                      (emit (Log ''=> Downloading Cache [DONE]'' [])
                                         (debugLog ''=> cacheArchiveFilePath: %s''
                                            [AStr cacheArchiveFilePath] w2))) of
                              (Some err, w3) \<Rightarrow>
                                (1, emit (Log ''Failed to uncompress tar, error: %+v'' [AErr err]) w3)
                            | (None, w3) \<Rightarrow>
                                (0, emit (Log ''=> Finished'' [])
                                      (emit (Log ''=> Uncompressing Cache [DONE]'' []) w3))))))"

section \<open>Reading a trace\<close>

text \<open>The kinds of events the properties below count.\<close>

fun isOsCreate :: "event \<Rightarrow> bool" where
  "isOsCreate (OsCreate p) = True"
| "isOsCreate e = False"

fun isHttpGet :: "event \<Rightarrow> bool" where
  "isHttpGet (HttpGet u) = True"
| "isHttpGet e = False"

fun isSleep :: "event \<Rightarrow> bool" where
  "isSleep (Sleep n) = True"
| "isSleep e = False"

fun isSyscall :: "event \<Rightarrow> bool" where
  "isSyscall (OsMkdirAll p m) = True"
| "isSyscall (OsRename a b) = True"
| "isSyscall (OsLink a b) = True"
| "isSyscall (OsSymlink a b) = True"
| "isSyscall e = False"

fun isOsMkdirAll :: "event \<Rightarrow> bool" where
  "isOsMkdirAll (OsMkdirAll p m) = True"
| "isOsMkdirAll e = False"

fun isOsRename :: "event \<Rightarrow> bool" where
  "isOsRename (OsRename a b) = True"
| "isOsRename e = False"

text \<open>The two lines \<^verbatim>\<open>uncompressCaches\<close> logs when it gives up on an item.\<close>

fun isSkipLog :: "event \<Rightarrow> bool" where
  "isSkipLog (Log fmt args) =
     (fmt = '' [!] Failed to create base path (%s) for cache item (%s): %s'' \<or>
      fmt = '' [!] Failed to move cache item (%s) to it's place: %s'')"
| "isSkipLog e = False"

text \<open>The events of an attempt to fetch, and of the pause between attempts.\<close>

definition fetchSteps :: "world \<Rightarrow> event list" where
  "fetchSteps w = filter (\<lambda>e. isOsCreate e \<or> isHttpGet e \<or> isSleep e) (events w)"

text \<open>
  What one call of \<^verbatim>\<open>downloadFile\<close> in the world \<open>w\<close> adds to the fetch steps: the
  creation of the local file and, when that succeeds, the request.
\<close>

definition attemptSteps :: "env \<Rightarrow> string \<Rightarrow> string \<Rightarrow> world \<Rightarrow> event list" where
  "attemptSteps ev url localPath w =
     (if create_err ev (events w) localPath = None then [OsCreate localPath, HttpGet url]
      else [OsCreate localPath])"

text \<open>The number of calls of \<^verbatim>\<open>downloadFile\<close> so far: each begins with one \<^verbatim>\<open>os.Create\<close>.\<close>

definition attempts :: "world \<Rightarrow> nat" where
  "attempts w = length (filter isOsCreate (events w))"

text \<open>The lines that report a skipped item, and the moves tried, so far.\<close>

definition skipLogs :: "world \<Rightarrow> nat" where
  "skipLogs w = length (filter isSkipLog (events w))"

definition renames :: "world \<Rightarrow> nat" where
  "renames w = length (filter isOsRename (events w))"

section \<open>Sample parameters\<close>

text \<open>
  One instance of the library parameters and one of the outside world, to evaluate the
  functions at concrete inputs. The sample gzip format is a ten-byte header that starts
  with the gzip magic number and the deflate method (1f 8b 08), followed by the content
  as it is; the sample tar format has no entry in an empty stream and otherwise one
  entry, named by the bytes before the first zero byte.
\<close>

definition sample_gz_open :: "byte list \<Rightarrow> error + stream" where
  "sample_gz_open S =
     (if S = [] then Inl EOF
      else if length S < 10 then Inl (Lib ''unexpected EOF'')
      else if take 3 S \<noteq> [0x1f, 0x8b, 8] then Inl (Lib ''gzip: invalid header'')
      else Inr \<lparr>sdata = drop 10 S, serr = None\<rparr>)"

definition sample_tar_parse :: "stream \<Rightarrow> tar_reader" where
  "sample_tar_parse s =
     (if sdata s = [] then \<lparr>entries = [], tail_err = serr s\<rparr>
      else \<lparr>entries =
              [(\<lparr>Typeflag = TypeReg,
                 Name = map (\<lambda>b. char_of (unat b)) (takeWhile (\<lambda>b. b \<noteq> 0) (sdata s)),
                 Linkname = [], Mode = 420\<rparr>,
                \<lparr>sdata = drop 1 (dropWhile (\<lambda>b. b \<noteq> 0) (sdata s)), serr = None\<rparr>)],
            tail_err = serr s\<rparr>)"

definition sample_codec :: codec where
  "sample_codec =
     \<lparr>gz_probe = (\<lambda>S. min 10 (length S)),
      gz_open = sample_gz_open,
      tar_parse = sample_tar_parse,
      json_cache_info = (\<lambda>d. Inr \<lparr>Fingerprint = ''fp'', Contents = []\<rparr>),
      json_download_url =
        (\<lambda>b. if b = [] then Inl (Lib ''unexpected end of JSON input'')
             else Inr ''https://cache.example/archive.tar'')\<rparr>"

text \<open>A world in which every call succeeds.\<close>

definition quiet_env :: env where
  "quiet_env =
     \<lparr>getenv = (\<lambda>k. if k = ''cache_api_url'' then ''https://api.example/cache'' else []),
      goos = ''linux'',
      create_err = (\<lambda>h p. None),
      open_err = (\<lambda>h p. None),
      close_err = (\<lambda>h x. None),
      write_fail = (\<lambda>h p. None),
      chmod_err = (\<lambda>h p. None),
      http_get = (\<lambda>h u. Inr \<lparr>StatusCode = 200, Body = \<lparr>sdata = [1, 2, 3], serr = None\<rparr>\<rparr>),
      new_request_err = (\<lambda>u. None),
      client_do = (\<lambda>h u. Inr \<lparr>StatusCode = 200, Body = \<lparr>sdata = [0x7b, 0x7d], serr = None\<rparr>\<rparr>),
      mkdirall_err = (\<lambda>h p. None),
      rename_err = (\<lambda>h a b. None),
      link_err = (\<lambda>h a b. None),
      symlink_err = (\<lambda>h a b. None),
      tempdir = (\<lambda>h p. Inr ''/tmp/cache-infos''),
      run_cmd = (\<lambda>h d c a. ([], None))\<rparr>"

text \<open>A world in which the first request for a URL fails and every later one succeeds.\<close>

definition flaky_env :: env where
  "flaky_env =
     quiet_env\<lparr>http_get :=
       (\<lambda>h u. if HttpGet u \<in> set h
               then Inr \<lparr>StatusCode = 200, Body = \<lparr>sdata = [1, 2, 3], serr = None\<rparr>\<rparr>
               else Inl (Lib ''connection reset by peer''))\<rparr>"

text \<open>A world in which the cache API answers 404.\<close>

definition env404 :: env where
  "env404 =
     quiet_env\<lparr>client_do :=
       (\<lambda>h u. Inr \<lparr>StatusCode = 404, Body = \<lparr>sdata = [], serr = None\<rparr>\<rparr>)\<rparr>"

text \<open>A world in which the cache API answers 404 and the body breaks off after one byte.\<close>

definition env404_unread :: env where
  "env404_unread =
     quiet_env\<lparr>client_do :=
       (\<lambda>h u. Inr \<lparr>StatusCode = 404,
                    Body = \<lparr>sdata = [0x3c], serr = Some (Lib ''unexpected EOF'')\<rparr>\<rparr>)\<rparr>"

text \<open>A world in which nothing can be moved.\<close>

definition norename_env :: env where
  "norename_env = quiet_env\<lparr>rename_err := (\<lambda>h a b. Some (Lib ''no such file or directory''))\<rparr>"

text \<open>
  A sample archive with the single entry \<^verbatim>\<open>./cache-info.json\<close> (payload \<^verbatim>\<open>{}\<close>), and
  the same archive in the sample gzip format.
\<close>

definition sample_tar :: "byte list" where
  "sample_tar =
     [0x2e, 0x2f, 0x63, 0x61, 0x63, 0x68, 0x65, 0x2d, 0x69, 0x6e, 0x66, 0x6f, 0x2e,
      0x6a, 0x73, 0x6f, 0x6e, 0, 0x7b, 0x7d]"

definition sample_tar_gz :: "byte list" where
  "sample_tar_gz = [0x1f, 0x8b, 8, 0, 0, 0, 0, 0, 0, 0xff] @ sample_tar"

definition two_items :: CacheInfosModel where
  "two_items =
     \<lparr>Fingerprint = ''fp'',
      Contents = [\<lparr>DestinationPath = ''/home/a/x'', RelativePathInArchive = ''x''\<rparr>,
                  \<lparr>DestinationPath = ''/home/b/y'', RelativePathInArchive = ''y''\<rparr>]\<rparr>"

definition world0 :: world where
  "world0 = \<lparr>files = Map.empty, events = [], gIsDebugMode = False\<rparr>"

section \<open>Properties of the restorable reader\<close>

lemma Read_fresh:
  "Read k (NewRestoreReader S) =
     (take k S, \<lparr>source = drop k S, queue = take k S, replay = [], restored = False\<rparr>)"
  by (simp add: Read_def NewRestoreReader_def Let_def)

lemma ReadAll_all: "fst (ReadAll rr) = replay rr @ source rr"
  by (simp add: ReadAll_def Read_def Let_def)

lemma Restore_after_Read:
  "Restore (snd (Read k (NewRestoreReader S))) =
     Some \<lparr>source = drop k S, queue = [], replay = take k S, restored = True\<rparr>"
  by (simp add: Read_fresh Restore_def)

text \<open>
  While the reader is not restored, any sequence of reads leaves the bytes read so far in
  the queue, in front of the unread rest of the source.
\<close>

lemma Reads_unrestored:
  "restored rr = False \<Longrightarrow> replay rr = [] \<Longrightarrow> Reads ns rr = (p, rr') \<Longrightarrow>
   restored rr' = False \<and> replay rr' = [] \<and> queue rr' = queue rr @ p \<and>
   queue rr' @ source rr' = queue rr @ source rr"
proof (induction ns arbitrary: rr p rr')
  case Nil
  then show ?case by simp
next
  case (Cons n ns)
  obtain p1 rr1 where r1: "Read n rr = (p1, rr1)" by (cases "Read n rr")
  obtain q rr2 where r2: "Reads ns rr1 = (q, rr2)" by (cases "Reads ns rr1")
  from r1 Cons.prems(1,2) have a: "restored rr1 = False" "replay rr1 = []"
    "queue rr1 = queue rr @ p1" "queue rr1 @ source rr1 = queue rr @ source rr"
    by (auto simp: Read_def Let_def)
  from Cons.IH [OF a(1) a(2) r2] have b: "restored rr2 = False" "replay rr2 = []"
    "queue rr2 = queue rr1 @ q" "queue rr2 @ source rr2 = queue rr1 @ source rr1"
    by auto
  from Cons.prems(3) r1 r2 have "p = p1 @ q" "rr' = rr2" by auto
  with a b show ?case by simp
qed

lemma Reads_then_Restore:
  assumes "Reads ns (NewRestoreReader S) = (p, rr)"
  shows "map_option (\<lambda>r. fst (ReadAll r)) (Restore rr) = Some S"
proof -
  have "restored rr = False \<and> replay rr = [] \<and> queue rr = queue (NewRestoreReader S) @ p \<and>
        queue rr @ source rr = queue (NewRestoreReader S) @ source (NewRestoreReader S)"
    by (rule Reads_unrestored [OF _ _ assms]) (simp_all add: NewRestoreReader_def)
  then have "restored rr = False" "replay rr = []" "queue rr @ source rr = S"
    unfolding NewRestoreReader_def by auto
  then show ?thesis by (simp add: Restore_def ReadAll_all)
qed

text \<open>
  C2 (restore fidelity). For every byte sequence \<open>S\<close> and every \<open>k\<close>, reading \<open>k\<close> bytes
  from a fresh reader on \<open>S\<close> returns the first \<open>k\<close> bytes of \<open>S\<close> (all of \<open>S\<close> when
  \<open>k\<close> is its length, nothing when \<open>k\<close> is 0); restoring the reader then succeeds, and
  reading it to the end returns exactly \<open>S\<close>. The bound \<open>k \<le> |S|\<close> of the claim is not
  needed: a read beyond the end stops at the end.
\<close>

theorem restore_fidelity:
  "fst (Read k (NewRestoreReader S)) = take k S \<and>
   map_option (\<lambda>rr. fst (ReadAll rr)) (Restore (snd (Read k (NewRestoreReader S)))) = Some S"
proof
  show "fst (Read k (NewRestoreReader S)) = take k S"
    by (simp add: Read_fresh)
  show "map_option (\<lambda>rr. fst (ReadAll rr)) (Restore (snd (Read k (NewRestoreReader S)))) = Some S"
    unfolding Restore_after_Read by (simp add: ReadAll_all)
qed

theorem restore_fidelity_witness:
  "fst (Read 2 (NewRestoreReader [10, 20, 30, 40])) = [10, 20] \<and>
   map_option (\<lambda>rr. fst (ReadAll rr)) (Restore (snd (Read 2 (NewRestoreReader [10, 20, 30, 40]))))
     = Some [10, 20, 30, 40]"
  using restore_fidelity [of 2 "[10, 20, 30, 40]"] by simp

section \<open>Properties of readFirstEntry\<close>

lemma gzip_NewReader_fresh:
  "gzip_NewReader c (NewRestoreReader S) =
     (gz_open c S, snd (Read (gz_probe c S) (NewRestoreReader S)))"
  by (simp add: gzip_NewReader_def NewRestoreReader_def)

lemma readFirstEntry_eq:
  "readFirstEntry c S =
     (case gz_open c S of
        Inr archive \<Rightarrow> (Some (firstOf c archive), [Log ''attempt to read archive as .gzip'' []])
      | Inl err \<Rightarrow> (Some (firstOf c \<lparr>sdata = S, serr = None\<rparr>), gzipFailedLog err))"
  unfolding readFirstEntry_def Let_def gzip_NewReader_fresh
  by (simp add: Restore_after_Read ReadAll_all split: sum.splits)

lemma sample_codec_fields:
  "gz_open sample_codec = sample_gz_open" "tar_parse sample_codec = sample_tar_parse"
  "gz_probe sample_codec = (\<lambda>S. min 10 (length S))"
  "json_cache_info sample_codec = (\<lambda>d. Inr \<lparr>Fingerprint = ''fp'', Contents = []\<rparr>)"
  by (simp_all add: sample_codec_def)

text \<open>
  C3 (the two decoding paths). For every input \<open>S\<close>: whatever number of bytes
  \<^verbatim>\<open>gzip.NewReader\<close> has read, restoring the reader succeeds and the reader then
  delivers exactly \<open>S\<close>; \<^verbatim>\<open>readFirstEntry\<close> never stops in \<^verbatim>\<open>Restore\<close>; it reads the
  first entry from the decompressed stream when the gzip open succeeds and from the
  original bytes \<open>S\<close> when it fails; and the reader is restored (the line "restoring
  reader and trying as .tar" is logged) if and only if the gzip open fails.
\<close>

theorem sniffer_paths:
  "map_option (\<lambda>rr. fst (ReadAll rr)) (Restore (snd (gzip_NewReader c (NewRestoreReader S)))) = Some S \<and>
   readFirstEntry c S =
     (case gz_open c S of
        Inr archive \<Rightarrow> (Some (firstOf c archive), [Log ''attempt to read archive as .gzip'' []])
      | Inl err \<Rightarrow> (Some (firstOf c \<lparr>sdata = S, serr = None\<rparr>), gzipFailedLog err)) \<and>
   (Log ''restoring reader and trying as .tar'' [] \<in> set (snd (readFirstEntry c S))
      \<longleftrightarrow> (\<exists>err. gz_open c S = Inl err))"
proof (intro conjI)
  show "map_option (\<lambda>rr. fst (ReadAll rr)) (Restore (snd (gzip_NewReader c (NewRestoreReader S)))) = Some S"
    unfolding gzip_NewReader_fresh snd_conv Restore_after_Read by (simp add: ReadAll_all)
  show "readFirstEntry c S =
     (case gz_open c S of
        Inr archive \<Rightarrow> (Some (firstOf c archive), [Log ''attempt to read archive as .gzip'' []])
      | Inl err \<Rightarrow> (Some (firstOf c \<lparr>sdata = S, serr = None\<rparr>), gzipFailedLog err))"
    by (rule readFirstEntry_eq)
  show "Log ''restoring reader and trying as .tar'' [] \<in> set (snd (readFirstEntry c S))
      \<longleftrightarrow> (\<exists>err. gz_open c S = Inl err)"
    by (cases "gz_open c S") (simp_all add: readFirstEntry_eq gzipFailedLog_def)
qed

text \<open>
  An instance: five bytes that do not open as gzip are read as they are, after a
  restore; the same bytes behind a sample gzip header give the same entry.
\<close>

theorem sniffer_paths_witness:
  "fst (readFirstEntry sample_codec [0x2e, 0x2f, 0x61, 0, 5]) =
     Some (Some \<lparr>entries = [], tail_err = None\<rparr>,
           Some \<lparr>Typeflag = TypeReg, Name = ''./a'', Linkname = [], Mode = 420\<rparr>, None) \<and>
   Log ''restoring reader and trying as .tar'' []
     \<in> set (snd (readFirstEntry sample_codec [0x2e, 0x2f, 0x61, 0, 5])) \<and>
   fst (readFirstEntry sample_codec [0x1f, 0x8b, 8, 0, 0, 0, 0, 0, 0, 0xff, 0x2e, 0x2f, 0x61, 0, 5]) =
     fst (readFirstEntry sample_codec [0x2e, 0x2f, 0x61, 0, 5])"
proof -
  have raw: "gz_open sample_codec [0x2e, 0x2f, 0x61, 0, 5] = Inl (Lib ''unexpected EOF'')"
    by (simp add: sample_codec_fields sample_gz_open_def)
  have gz: "gz_open sample_codec [0x1f, 0x8b, 8, 0, 0, 0, 0, 0, 0, 0xff, 0x2e, 0x2f, 0x61, 0, 5]
              = Inr \<lparr>sdata = [0x2e, 0x2f, 0x61, 0, 5], serr = None\<rparr>"
    by (simp add: sample_codec_fields sample_gz_open_def)
  have first: "firstOf sample_codec \<lparr>sdata = [0x2e, 0x2f, 0x61, 0, 5], serr = None\<rparr> =
      (Some \<lparr>entries = [], tail_err = None\<rparr>,
       Some \<lparr>Typeflag = TypeReg, Name = ''./a'', Linkname = [], Mode = 420\<rparr>, None)"
    by (simp add: firstOf_def Next_def sample_codec_fields sample_tar_parse_def char_of_def bit_0)
  from sniffer_paths [of sample_codec "[0x2e, 0x2f, 0x61, 0, 5]"]
    sniffer_paths [of sample_codec "[0x1f, 0x8b, 8, 0, 0, 0, 0, 0, 0, 0xff, 0x2e, 0x2f, 0x61, 0, 5]"]
  show ?thesis
    by (simp add: raw gz first gzipFailedLog_def)
qed

text \<open>
  C9 (an empty archive is not an error). \<^verbatim>\<open>readFirstEntry\<close> returns no reader, no
  header and no error exactly when the first \<^verbatim>\<open>Next\<close> on the chosen stream (the
  decompressed one, or the original bytes) reports \<^verbatim>\<open>io.EOF\<close>, that is, when the
  archive has no entry. In every other case it returns a header or an error, so the
  caller tells the empty archive by the missing header.
\<close>

theorem empty_archive_is_not_an_error:
  "fst (readFirstEntry c S) = Some (None, None, None) \<longleftrightarrow>
   Next (tar_parse c (case gz_open c S of Inr archive \<Rightarrow> archive
                                          | Inl err \<Rightarrow> \<lparr>sdata = S, serr = None\<rparr>)) = Inl EOF"
  by (cases "gz_open c S")
     (auto simp: readFirstEntry_eq firstOf_def split: sum.splits prod.splits)

theorem empty_archive_witness:
  "fst (readFirstEntry sample_codec []) = Some (None, None, None)"
  using empty_archive_is_not_an_error [of sample_codec "[]"]
  by (simp add: sample_codec_fields sample_gz_open_def sample_tar_parse_def Next_def)

section \<open>Properties of the two manifest readers\<close>

lemma readCacheInfo_opened:
  assumes "open_err ev (events w) pth = None" and "files w pth = Some f"
  shows "fst (readCacheInfoFromArchive ev c pth w) =
           (case gz_open c f of Inl err \<Rightarrow> Inl (FailedGzipInit err)
                              | Inr gzf \<Rightarrow> scanCacheInfo c (tar_parse c gzf))"
  using assms by (simp add: readCacheInfoFromArchive_def os_Open_def split: sum.splits)

text \<open>
  C1, as the code has it. Let \<open>T\<close> be the bytes of an archive that do not open as gzip
  and \<open>G\<close> a gzip stream that decompresses to \<open>T\<close>. \<^verbatim>\<open>readFirstEntry\<close> of archive.go
  finds the format by itself and returns the same first entry for \<open>G\<close> and for \<open>T\<close>.
  \<^verbatim>\<open>readCacheInfoFromArchive\<close> of the older main.go opens its file as gzip only: for
  the file with content \<open>G\<close> it scans the entries of \<open>T\<close> for the manifest, for the file
  with content \<open>T\<close> it returns the error "Failed to initialize Archive gzip reader".
\<close>

theorem archive_encodings:
  assumes "gz_open c G = Inr \<lparr>sdata = T, serr = None\<rparr>" and "gz_open c T = Inl err"
    and "open_err ev (events w) pg = None" and "files w pg = Some G"
    and "open_err ev (events w) pt = None" and "files w pt = Some T"
  shows "fst (readFirstEntry c G) = Some (firstOf c \<lparr>sdata = T, serr = None\<rparr>) \<and>
         fst (readFirstEntry c T) = fst (readFirstEntry c G) \<and>
         fst (readCacheInfoFromArchive ev c pg w) =
           scanCacheInfo c (tar_parse c \<lparr>sdata = T, serr = None\<rparr>) \<and>
         fst (readCacheInfoFromArchive ev c pt w) = Inl (FailedGzipInit err)"
  using assms by (simp add: readFirstEntry_eq readCacheInfo_opened)

lemma sample_tar_opens:
  "gz_open sample_codec sample_tar_gz = Inr \<lparr>sdata = sample_tar, serr = None\<rparr>"
  "gz_open sample_codec sample_tar = Inl (Lib ''gzip: invalid header'')"
  by (simp_all add: sample_codec_fields sample_gz_open_def sample_tar_gz_def sample_tar_def)

lemma sample_tar_first:
  "firstOf sample_codec \<lparr>sdata = sample_tar, serr = None\<rparr> =
     (Some \<lparr>entries = [], tail_err = None\<rparr>,
      Some \<lparr>Typeflag = TypeReg, Name = ''./cache-info.json'', Linkname = [], Mode = 420\<rparr>,
      None)"
  by (simp add: firstOf_def Next_def sample_codec_fields sample_tar_parse_def sample_tar_def
      char_of_def bit_0)

lemma sample_tar_scan:
  "scanCacheInfo sample_codec (tar_parse sample_codec \<lparr>sdata = sample_tar, serr = None\<rparr>) =
     Inr \<lparr>Fingerprint = ''fp'', Contents = []\<rparr>"
  by (simp add: scanCacheInfo.simps Next_def sample_codec_fields sample_tar_parse_def
      sample_tar_def char_of_def bit_0)

theorem archive_encodings_witness:
  "fst (readFirstEntry sample_codec sample_tar_gz) =
     Some (Some \<lparr>entries = [], tail_err = None\<rparr>,
           Some \<lparr>Typeflag = TypeReg, Name = ''./cache-info.json'', Linkname = [], Mode = 420\<rparr>,
           None) \<and>
   fst (readFirstEntry sample_codec sample_tar) = fst (readFirstEntry sample_codec sample_tar_gz) \<and>
   fst (readCacheInfoFromArchive quiet_env sample_codec ''cache.tar.gz''
         (world0\<lparr>files := [''cache.tar.gz'' \<mapsto> sample_tar_gz, ''cache.tar'' \<mapsto> sample_tar]\<rparr>)) =
     Inr \<lparr>Fingerprint = ''fp'', Contents = []\<rparr> \<and>
   fst (readCacheInfoFromArchive quiet_env sample_codec ''cache.tar''
         (world0\<lparr>files := [''cache.tar.gz'' \<mapsto> sample_tar_gz, ''cache.tar'' \<mapsto> sample_tar]\<rparr>)) =
     Inl (FailedGzipInit (Lib ''gzip: invalid header''))"
proof -
  let ?w = "world0\<lparr>files := [''cache.tar.gz'' \<mapsto> sample_tar_gz, ''cache.tar'' \<mapsto> sample_tar]\<rparr>"
  have "fst (readFirstEntry sample_codec sample_tar_gz) =
          Some (firstOf sample_codec \<lparr>sdata = sample_tar, serr = None\<rparr>) \<and>
        fst (readFirstEntry sample_codec sample_tar) = fst (readFirstEntry sample_codec sample_tar_gz) \<and>
        fst (readCacheInfoFromArchive quiet_env sample_codec ''cache.tar.gz'' ?w) =
          scanCacheInfo sample_codec (tar_parse sample_codec \<lparr>sdata = sample_tar, serr = None\<rparr>) \<and>
        fst (readCacheInfoFromArchive quiet_env sample_codec ''cache.tar'' ?w) =
          Inl (FailedGzipInit (Lib ''gzip: invalid header''))"
    by (rule archive_encodings [OF sample_tar_opens]) (simp_all add: quiet_env_def)
  then show ?thesis
    by (simp add: sample_tar_first sample_tar_scan)
qed

text \<open>
  The claim as stated fails on the older main.go: the archive that is read when it is
  gzip-compressed is refused when it is not, and the extraction there names the format
  to the tar tool (the flag \<^verbatim>\<open>z\<close>).
\<close>

theorem legacy_rejects_uncompressed:
  "fst (readCacheInfoFromArchive quiet_env sample_codec ''cache.tar.gz''
         (world0\<lparr>files := [''cache.tar.gz'' \<mapsto> sample_tar]\<rparr>)) =
     Inl (FailedGzipInit (Lib ''gzip: invalid header'')) \<and>
   fst (readCacheInfoFromArchive quiet_env sample_codec ''cache.tar.gz''
         (world0\<lparr>files := [''cache.tar.gz'' \<mapsto> sample_tar_gz]\<rparr>)) =
     Inr \<lparr>Fingerprint = ''fp'', Contents = []\<rparr> \<and>
   events (snd (uncompressCaches quiet_env ''cache.tar.gz'' \<lparr>Fingerprint = ''fp'', Contents = []\<rparr> world0)) =
     [TempDir [], RunCmd (Some ''/tmp/cache-infos'') ''tar'' [''-xvzf'', ''cache.tar.gz'']]"
proof (intro conjI)
  show "fst (readCacheInfoFromArchive quiet_env sample_codec ''cache.tar.gz''
         (world0\<lparr>files := [''cache.tar.gz'' \<mapsto> sample_tar]\<rparr>)) =
     Inl (FailedGzipInit (Lib ''gzip: invalid header''))"
    by (simp add: readCacheInfo_opened [where f = sample_tar] quiet_env_def sample_tar_opens)
  show "fst (readCacheInfoFromArchive quiet_env sample_codec ''cache.tar.gz''
         (world0\<lparr>files := [''cache.tar.gz'' \<mapsto> sample_tar_gz]\<rparr>)) =
     Inr \<lparr>Fingerprint = ''fp'', Contents = []\<rparr>"
    by (simp add: readCacheInfo_opened [where f = sample_tar_gz] quiet_env_def sample_tar_opens
        sample_tar_scan)
  show "events (snd (uncompressCaches quiet_env ''cache.tar.gz'' \<lparr>Fingerprint = ''fp'', Contents = []\<rparr> world0)) =
     [TempDir [], RunCmd (Some ''/tmp/cache-infos'') ''tar'' [''-xvzf'', ''cache.tar.gz'']]"
    by (simp add: uncompressCaches_def quiet_env_def world0_def Let_def debugLog_def emit_def)
qed

section \<open>Properties of the stack compatibility check\<close>

text \<open>
  C4 (the decision table). The identities \<open>A\<close> and \<open>B\<close> of the table are identities
  that are set; the unset identity is the empty string of the fourth row. Equal
  identities proceed; different identities, both set, abort when the fallback is off;
  any two identities proceed when the fallback is on; and an unset identity of the
  manifest proceeds against every current identity.
\<close>

theorem gate_decision_table:
  "check A A False = Proceed \<and>
   (A \<noteq> B \<and> A \<noteq> [] \<and> B \<noteq> [] \<longrightarrow> check A B False = Abort A B) \<and>
   check A B True = Proceed \<and>
   check [] B False = Proceed"
  by (simp add: check_def)

theorem gate_decision_table_witness:
  "check ''X'' ''X'' False = Proceed \<and> check ''X'' ''Y'' False = Abort ''X'' ''Y'' \<and>
   check ''X'' ''Y'' True = Proceed \<and> check [] ''Y'' False = Proceed"
  using gate_decision_table [of "''X''" "''Y''"] by simp

section \<open>Properties of the trace\<close>

lemma events_emit: "events (emit e w) = events w @ [e]"
  by (simp add: emit_def)

lemma files_emit: "files (emit e w) = files w"
  by (simp add: emit_def)

lemma events_closeLogged:
  "events (closeLogged ev x fmt args w) =
     events w @ Close x #
       (case close_err ev (events w) x of None \<Rightarrow> [] | Some e \<Rightarrow> [Log fmt (args @ [AErr e])])"
  by (simp add: closeLogged_def emit_def split: option.splits)

lemma files_closeLogged: "files (closeLogged ev x fmt args w) = files w"
  by (simp add: closeLogged_def emit_def split: option.splits)

lemma fetchSteps_emit:
  "fetchSteps (emit e w) =
     fetchSteps w @ (if isOsCreate e \<or> isHttpGet e \<or> isSleep e then [e] else [])"
  by (simp add: fetchSteps_def emit_def)

lemma fetchSteps_closeLogged: "fetchSteps (closeLogged ev x fmt args w) = fetchSteps w"
  by (simp add: fetchSteps_def events_closeLogged split: option.splits)

lemma fetchSteps_files_upd: "fetchSteps (w\<lparr>files := f\<rparr>) = fetchSteps w"
  by (simp add: fetchSteps_def)

lemma fetchSteps_debug_upd: "fetchSteps (w\<lparr>gIsDebugMode := b\<rparr>) = fetchSteps w"
  by (simp add: fetchSteps_def)

lemma fetchSteps_debugLog: "fetchSteps (debugLog fmt args w) = fetchSteps w"
  by (simp add: debugLog_def fetchSteps_emit)

lemma files_debugLog: "files (debugLog fmt args w) = files w"
  by (simp add: debugLog_def files_emit)

lemma attempts_fetchSteps: "attempts w = length (filter isOsCreate (fetchSteps w))"
proof -
  have "filter isOsCreate (fetchSteps w) = filter isOsCreate (events w)"
    unfolding fetchSteps_def filter_filter by (rule filter_cong) auto
  then show ?thesis by (simp add: attempts_def)
qed

lemma attemptSteps_creates: "length (filter isOsCreate (attemptSteps ev url p w)) = 1"
  by (simp add: attemptSteps_def)

lemma io_Copy_events: "events (snd (io_Copy ev p src w)) = events w"
  by (simp add: io_Copy_def Let_def split: option.splits prod.splits)

lemma fetchSteps_io_Copy: "io_Copy ev p src w = (r, w') \<Longrightarrow> fetchSteps w' = fetchSteps w"
  using io_Copy_events [of ev p src w] by (simp add: fetchSteps_def)

lemma fetchSteps_os_Create:
  "fetchSteps (snd (os_Create ev p w)) = fetchSteps w @ [OsCreate p]"
  by (simp add: os_Create_def fetchSteps_emit fetchSteps_files_upd split: option.splits)

lemma os_Create_fst: "fst (os_Create ev p w) = create_err ev (events w) p"
  by (simp add: os_Create_def split: option.splits)

section \<open>Properties of downloadFile\<close>

lemma downloadFile_steps:
  "fetchSteps (snd (downloadFile ev url p w)) = fetchSteps w @ attemptSteps ev url p w"
proof (cases "os_Create ev p w")
  case (Pair r w1)
  have s1: "fetchSteps w1 = fetchSteps w @ [OsCreate p]"
    using fetchSteps_os_Create [of ev p w] Pair by simp
  have r1: "r = create_err ev (events w) p"
    using os_Create_fst [of ev p w] Pair by simp
  show ?thesis
  proof (cases r)
    case (Some e)
    then show ?thesis using Pair s1 r1 by (simp add: downloadFile_def attemptSteps_def)
  next
    case None
    have "fetchSteps (snd (downloadFile ev url p w)) = fetchSteps w1 @ [HttpGet url]"
      using Pair None
      by (auto simp: downloadFile_def Let_def closeOut_def closeBody_def fetchSteps_closeLogged
          fetchSteps_emit dest!: fetchSteps_io_Copy
          split: sum.splits option.splits prod.splits)
    then show ?thesis using s1 r1 None by (simp add: attemptSteps_def)
  qed
qed

text \<open>The function once \<^verbatim>\<open>os.Create\<close> has succeeded.\<close>

lemma downloadFile_created:
  assumes "create_err ev (events w) p = None"
  shows "downloadFile ev url p w =
     (let w1 = emit (HttpGet url) (emit (OsCreate p) (w\<lparr>files := (files w)(p \<mapsto> [])\<rparr>)) in
      case http_get ev (events w @ [OsCreate p]) url of
        Inl err \<Rightarrow> (Some (FailedRequest err), closeOut ev p w1)
      | Inr resp \<Rightarrow>
          if StatusCode resp \<noteq> 200 then
            (Some (NonSuccessCode (StatusCode resp)),
             closeOut ev p (closeBody ev
               (emit (Log '' ==> (!) Response content: %s'' [ABytes (sdata (Body resp))])
                 (case serr (Body resp) of
                    Some err \<Rightarrow> emit (Log '' (!) Failed to read response body: %s'' [AErr err]) w1
                  | None \<Rightarrow> w1))))
          else (map_option FailedSave (fst (io_Copy ev p (Body resp) w1)),
                closeOut ev p (closeBody ev (snd (io_Copy ev p (Body resp) w1)))))"
  using assms
  by (auto simp: downloadFile_def os_Create_def Let_def emit_def
      split: sum.splits option.splits prod.splits)

lemma files_io_Copy_fresh:
  assumes "files w p = Some []"
  shows "\<exists>n. files (snd (io_Copy ev p src w)) = (files w)(p \<mapsto> take n (sdata src))"
proof (cases "write_fail ev (events w) p")
  case None
  then have "files (snd (io_Copy ev p src w)) = (files w)(p \<mapsto> take (length (sdata src)) (sdata src))"
    using assms by (simp add: io_Copy_def Let_def)
  then show ?thesis by blast
next
  case (Some ne)
  obtain n e where ne: "ne = (n, e)" by (cases ne)
  show ?thesis
  proof (cases "n < length (sdata src)")
    case True
    then have "files (snd (io_Copy ev p src w)) = (files w)(p \<mapsto> take n (sdata src))"
      using assms Some ne by (simp add: io_Copy_def Let_def)
    then show ?thesis by blast
  next
    case False
    then have "files (snd (io_Copy ev p src w)) = (files w)(p \<mapsto> take (length (sdata src)) (sdata src))"
      using assms Some ne by (simp add: io_Copy_def Let_def)
    then show ?thesis by blast
  qed
qed

text \<open>
  C10 (the download is not atomic). Every call of \<^verbatim>\<open>downloadFile\<close> begins with
  \<^verbatim>\<open>os.Create\<close> on the local path, and the request is sent only after the file is
  created. When the file is created, it exists after the call whatever happens next,
  and its old content is gone: it is empty after a transport error and after a status
  other than 200, and after the body copy it holds a prefix of the body (all of it, or
  what was written before the copy failed). A file that did not exist before the call
  exists after a failed one.
\<close>

theorem downloadFile_not_atomic:
  "fetchSteps (snd (downloadFile ev url p w)) = fetchSteps w @ attemptSteps ev url p w \<and>
   (create_err ev (events w) p = None \<longrightarrow>
      files (snd (downloadFile ev url p w)) p \<noteq> None \<and>
      (case http_get ev (events w @ [OsCreate p]) url of
         Inl err \<Rightarrow>
           fst (downloadFile ev url p w) = Some (FailedRequest err) \<and>
           files (snd (downloadFile ev url p w)) = (files w)(p \<mapsto> [])
       | Inr resp \<Rightarrow>
           if StatusCode resp \<noteq> 200 then
             fst (downloadFile ev url p w) = Some (NonSuccessCode (StatusCode resp)) \<and>
             files (snd (downloadFile ev url p w)) = (files w)(p \<mapsto> [])
           else
             (\<exists>n. files (snd (downloadFile ev url p w)) = (files w)(p \<mapsto> take n (sdata (Body resp)))) \<and>
             (fst (downloadFile ev url p w) = None \<or>
              (\<exists>err. fst (downloadFile ev url p w) = Some (FailedSave err)))))"
proof (intro conjI impI)
  show "fetchSteps (snd (downloadFile ev url p w)) = fetchSteps w @ attemptSteps ev url p w"
    by (rule downloadFile_steps)
next
  assume c: "create_err ev (events w) p = None"
  let ?w1 = "emit (HttpGet url) (emit (OsCreate p) (w\<lparr>files := (files w)(p \<mapsto> [])\<rparr>))"
  have f1: "files ?w1 = (files w)(p \<mapsto> [])"
    by (simp add: emit_def)
  have copy: "\<exists>n. files (snd (io_Copy ev p src ?w1)) = (files w)(p \<mapsto> take n (sdata src))" for src
    using files_io_Copy_fresh [of ?w1 p ev src] by (simp add: f1)
  show cases: "(case http_get ev (events w @ [OsCreate p]) url of
         Inl err \<Rightarrow>
           fst (downloadFile ev url p w) = Some (FailedRequest err) \<and>
           files (snd (downloadFile ev url p w)) = (files w)(p \<mapsto> [])
       | Inr resp \<Rightarrow>
           if StatusCode resp \<noteq> 200 then
             fst (downloadFile ev url p w) = Some (NonSuccessCode (StatusCode resp)) \<and>
             files (snd (downloadFile ev url p w)) = (files w)(p \<mapsto> [])
           else
             (\<exists>n. files (snd (downloadFile ev url p w)) = (files w)(p \<mapsto> take n (sdata (Body resp)))) \<and>
             (fst (downloadFile ev url p w) = None \<or>
              (\<exists>err. fst (downloadFile ev url p w) = Some (FailedSave err))))"
  proof (cases "http_get ev (events w @ [OsCreate p]) url")
    case (Inl err)
    then show ?thesis
      by (simp add: downloadFile_created [OF c] Let_def closeOut_def files_closeLogged f1)
  next
    case (Inr resp)
    show ?thesis
    proof (cases "StatusCode resp = 200")
      case False
      then show ?thesis using Inr
        by (simp add: downloadFile_created [OF c] Let_def closeOut_def closeBody_def
            files_closeLogged files_emit f1 split: option.splits)
    next
      case True
      obtain n where "files (snd (io_Copy ev p (Body resp) ?w1)) = (files w)(p \<mapsto> take n (sdata (Body resp)))"
        using copy by blast
      then show ?thesis using Inr True
        by (cases "fst (io_Copy ev p (Body resp) ?w1)")
           (auto simp: downloadFile_created [OF c] Let_def closeOut_def closeBody_def
            files_closeLogged)
    qed
  qed
  then show "files (snd (downloadFile ev url p w)) p \<noteq> None"
    by (auto split: sum.splits if_splits)
qed

text \<open>
  An instance: the local file exists with two bytes, the file is created again, and the
  request fails. The file is left empty.
\<close>

theorem downloadFile_not_atomic_witness:
  "fst (downloadFile flaky_env ''u'' ''p'' (world0\<lparr>files := [''p'' \<mapsto> [9, 9]]\<rparr>)) =
     Some (FailedRequest (Lib ''connection reset by peer'')) \<and>
   files (snd (downloadFile flaky_env ''u'' ''p'' (world0\<lparr>files := [''p'' \<mapsto> [9, 9]]\<rparr>))) =
     [''p'' \<mapsto> []] \<and>
   fetchSteps (snd (downloadFile flaky_env ''u'' ''p'' (world0\<lparr>files := [''p'' \<mapsto> [9, 9]]\<rparr>))) =
     [OsCreate ''p'', HttpGet ''u'']"
proof -
  let ?w = "world0\<lparr>files := [''p'' \<mapsto> [9, 9]]\<rparr>"
  have c: "create_err flaky_env (events ?w) ''p'' = None"
    by (simp add: flaky_env_def quiet_env_def)
  have g: "http_get flaky_env (events ?w @ [OsCreate ''p'']) ''u'' =
             Inl (Lib ''connection reset by peer'')"
    by (simp add: flaky_env_def quiet_env_def world0_def)
  have s: "fetchSteps ?w = []" "attemptSteps flaky_env ''u'' ''p'' ?w = [OsCreate ''p'', HttpGet ''u'']"
    by (simp_all add: fetchSteps_def world0_def attemptSteps_def flaky_env_def quiet_env_def)
  have f: "files ?w = [''p'' \<mapsto> [9, 9]]"
    by simp
  show ?thesis
    using downloadFile_not_atomic [of flaky_env "''u''" "''p''" ?w]
    unfolding g s f by (simp add: flaky_env_def quiet_env_def)
qed

section \<open>Properties of downloadFileWithRetry\<close>

lemma fetchSteps_beforeRetry: "fetchSteps (beforeRetry w) = fetchSteps w @ [Sleep 3000]"
  by (simp add: beforeRetry_def fetchSteps_emit)

lemma retry_steps:
  "fetchSteps (snd (downloadFileWithRetry ev url p w)) =
     fetchSteps w @ attemptSteps ev url p w @
       (if fst (downloadFile ev url p w) = None then []
        else Sleep 3000 # attemptSteps ev url p (beforeRetry (snd (downloadFile ev url p w))))"
proof (cases "downloadFile ev url p w")
  case (Pair r w1)
  have s1: "fetchSteps w1 = fetchSteps w @ attemptSteps ev url p w"
    using downloadFile_steps [of ev url p w] Pair by simp
  show ?thesis
  proof (cases r)
    case None
    then show ?thesis using Pair s1 by (simp add: downloadFileWithRetry_def)
  next
    case (Some e)
    have "fetchSteps (snd (downloadFile ev url p (beforeRetry w1))) =
            fetchSteps (beforeRetry w1) @ attemptSteps ev url p (beforeRetry w1)"
      by (rule downloadFile_steps)
    then show ?thesis using Pair Some s1
      by (simp add: downloadFileWithRetry_def fetchSteps_beforeRetry)
  qed
qed

lemma retry_result:
  "fst (downloadFileWithRetry ev url p w) =
     (if fst (downloadFile ev url p w) = None then None
      else fst (downloadFile ev url p (beforeRetry (snd (downloadFile ev url p w)))))"
  by (cases "downloadFile ev url p w") (auto simp: downloadFileWithRetry_def split: option.splits)

lemma retry_attempts:
  "attempts (snd (downloadFileWithRetry ev url p w)) =
     attempts w + (if fst (downloadFile ev url p w) = None then 1 else 2)"
  by (simp add: attempts_fetchSteps retry_steps attemptSteps_creates)

text \<open>The version with the cache API resolves the URL and then retries in the same way.\<close>

lemma retry_api_eq:
  "downloadFileWithRetry_api ev c api p w =
     (case getCacheDownloadURL ev c api w of
        (Inl err, w1) \<Rightarrow> (Some err, w1)
      | (Inr downloadURL, w1) \<Rightarrow>
          downloadFileWithRetry ev downloadURL p
            (debugLog ''   [DEBUG] downloadURL: %s'' [AStr downloadURL] w1))"
  by (simp add: downloadFileWithRetry_api_def downloadFileWithRetry_def Let_def
      split: prod.splits sum.splits)

lemma getCacheDownloadURL_steps:
  "fetchSteps (snd (getCacheDownloadURL ev c api w)) = fetchSteps w"
  by (simp add: getCacheDownloadURL_def Let_def fetchSteps_closeLogged fetchSteps_emit
      split: option.splits sum.splits)

lemma getCacheDownloadURL_files:
  "files (snd (getCacheDownloadURL ev c api w)) = files w"
  by (simp add: getCacheDownloadURL_def Let_def files_closeLogged files_emit
      split: option.splits sum.splits)

lemma retry_api_attempts:
  "attempts (snd (downloadFileWithRetry_api ev c api p w)) \<le> attempts w + 2"
proof (cases "getCacheDownloadURL ev c api w")
  case (Pair r w1)
  have a1: "attempts w1 = attempts w"
    using getCacheDownloadURL_steps [of ev c api w] Pair by (simp add: attempts_fetchSteps)
  show ?thesis
  proof (cases r)
    case (Inl err)
    then show ?thesis using Pair a1 by (simp add: retry_api_eq)
  next
    case (Inr u)
    have "attempts (debugLog ''   [DEBUG] downloadURL: %s'' [AStr u] w1) = attempts w"
      using a1 by (simp add: attempts_fetchSteps fetchSteps_debugLog)
    then show ?thesis using Pair Inr by (simp add: retry_api_eq retry_attempts)
  qed
qed

text \<open>
  C6 (one bounded retry). For every URL and local path, \<^verbatim>\<open>downloadFileWithRetry\<close>
  calls \<^verbatim>\<open>downloadFile\<close> once; when that call succeeds nothing else happens; when it
  fails the function sleeps 3000 milliseconds and calls \<^verbatim>\<open>downloadFile\<close> exactly once
  more, and what the second call returns is returned as it is. So the fetch steps of a
  run are those of one attempt, or of two attempts with one pause between them, and the
  number of attempts grows by one or by two. The version with the cache API behaves the
  same once the URL is resolved and makes no attempt when it is not: at most two
  attempts as well.
\<close>

theorem retry_bounded:
  "fst (downloadFileWithRetry ev url p w) =
     (if fst (downloadFile ev url p w) = None then None
      else fst (downloadFile ev url p (beforeRetry (snd (downloadFile ev url p w))))) \<and>
   fetchSteps (snd (downloadFileWithRetry ev url p w)) =
     fetchSteps w @ attemptSteps ev url p w @
       (if fst (downloadFile ev url p w) = None then []
        else Sleep 3000 # attemptSteps ev url p (beforeRetry (snd (downloadFile ev url p w)))) \<and>
   attempts (snd (downloadFileWithRetry ev url p w)) =
     attempts w + (if fst (downloadFile ev url p w) = None then 1 else 2) \<and>
   downloadFileWithRetry_api ev c api p w =
     (case getCacheDownloadURL ev c api w of
        (Inl err, w1) \<Rightarrow> (Some err, w1)
      | (Inr downloadURL, w1) \<Rightarrow>
          downloadFileWithRetry ev downloadURL p
            (debugLog ''   [DEBUG] downloadURL: %s'' [AStr downloadURL] w1)) \<and>
   attempts (snd (downloadFileWithRetry_api ev c api p w)) \<le> attempts w + 2"
  using retry_result retry_steps retry_attempts retry_api_eq retry_api_attempts
  by (intro conjI) blast+

text \<open>
  An instance: the first request fails and the second succeeds. Two attempts with one
  pause of 3000 milliseconds, and the result of the second attempt, which is success.
\<close>

theorem retry_bounded_witness:
  "fst (downloadFileWithRetry flaky_env ''u'' ''p'' world0) = None \<and>
   fetchSteps (snd (downloadFileWithRetry flaky_env ''u'' ''p'' world0)) =
     [OsCreate ''p'', HttpGet ''u'', Sleep 3000, OsCreate ''p'', HttpGet ''u''] \<and>
   attempts (snd (downloadFileWithRetry flaky_env ''u'' ''p'' world0)) = 2"
proof -
  have first: "downloadFile flaky_env ''u'' ''p'' world0 =
      (Some (FailedRequest (Lib ''connection reset by peer'')),
       \<lparr>files = [''p'' \<mapsto> []],
        events = [OsCreate ''p'', HttpGet ''u'', Close (File ''p'')],
        gIsDebugMode = False\<rparr>)"
    by (simp add: downloadFile_def os_Create_def flaky_env_def quiet_env_def world0_def emit_def
        closeOut_def closeLogged_def)
  have second: "fst (downloadFile flaky_env ''u'' ''p''
      (beforeRetry \<lparr>files = [''p'' \<mapsto> []],
        events = [OsCreate ''p'', HttpGet ''u'', Close (File ''p'')],
        gIsDebugMode = False\<rparr>)) = None"
    by (simp add: downloadFile_def os_Create_def flaky_env_def quiet_env_def emit_def Let_def
        closeOut_def closeBody_def closeLogged_def beforeRetry_def io_Copy_def)
  have steps: "fetchSteps world0 = []" "attempts world0 = 0"
    "attemptSteps flaky_env ''u'' ''p'' w = [OsCreate ''p'', HttpGet ''u'']" for w
    by (simp_all add: fetchSteps_def attempts_def world0_def attemptSteps_def flaky_env_def
        quiet_env_def)
  show ?thesis
    using retry_bounded [of flaky_env "''u''" "''p''" world0]
    by (simp add: first second steps)
qed

section \<open>Properties of the run with the cache API\<close>

lemma getCacheDownloadURL_out_of_range:
  assumes "new_request_err ev api = None" and "client_do ev (events w) api = Inr resp"
    and "StatusCode resp < 200 \<or> 202 < StatusCode resp"
  shows "fst (getCacheDownloadURL ev c api w) =
           Inl (if serr (Body resp) = None then CacheNotFound
                else FailedReadBody (StatusCode resp) (sdata (Body resp)))"
  using assms by (auto simp: getCacheDownloadURL_def Let_def)

lemma retry_api_resolution_failed:
  assumes "fst (getCacheDownloadURL ev c api w) = Inl err"
  shows "downloadFileWithRetry_api ev c api p w = (Some err, snd (getCacheDownloadURL ev c api w))"
  using assms by (cases "getCacheDownloadURL ev c api w") (simp add: downloadFileWithRetry_api_def)

text \<open>
  C5, as the code has it. Let the cache API be configured and answer with a status
  below 200 or above 202. \<^verbatim>\<open>getCacheDownloadURL\<close> reads the body before it looks at
  the status: when the body is read, the error is "Build cache not found. Probably cache
  not initialised yet ..."; when reading the body fails, the error is "Request sent, but
  failed to read response body". With either error \<^verbatim>\<open>downloadFileWithRetry\<close> returns it
  without one attempt to fetch, so no file is created or changed and no download
  request is sent; and \<^verbatim>\<open>main\<close> ends in \<^verbatim>\<open>log.Fatalf\<close> with the line "Unable to
  download cache" and that error, which is exit status 1, not 0.
\<close>

theorem status_out_of_range_is_fatal:
  assumes req: "new_request_err ev api = None"
    and resp: "\<And>h. client_do ev h api = Inr resp"
    and status: "StatusCode resp < 200 \<or> 202 < StatusCode resp"
    and url: "getenv ev ''cache_api_url'' = api" and configured: "api \<noteq> []"
    and err: "err = (if serr (Body resp) = None then CacheNotFound
                     else FailedReadBody (StatusCode resp) (sdata (Body resp)))"
  shows "fst (getCacheDownloadURL ev c api w) = Inl err \<and>
         fst (downloadFileWithRetry_api ev c api p w) = Some err \<and>
         fetchSteps (snd (downloadFileWithRetry_api ev c api p w)) = fetchSteps w \<and>
         files (snd (downloadFileWithRetry_api ev c api p w)) = files w \<and>
         fst (main_api ev c w) = 1 \<and>
         fetchSteps (snd (main_api ev c w)) = fetchSteps w \<and>
         files (snd (main_api ev c w)) = files w \<and>
         last (events (snd (main_api ev c w))) =
           Log '' [!] Unable to download cache: %s'' [AErr err]"
proof -
  have nf: "fst (getCacheDownloadURL ev c api w') = Inl err" for w'
    unfolding err using getCacheDownloadURL_out_of_range [OF req resp status] .
  have dl: "downloadFileWithRetry_api ev c api p' w' =
              (Some err, snd (getCacheDownloadURL ev c api w'))" for p' w'
    using retry_api_resolution_failed [OF nf] .
  show ?thesis
    using url configured
    by (simp add: nf dl getCacheDownloadURL_steps getCacheDownloadURL_files main_api_def
        CreateStepParamsFromEnvs_def Let_def fetchSteps_emit files_emit events_emit
        fetchSteps_debugLog files_debugLog fetchSteps_debug_upd)
qed

text \<open>
  Two instances: the answer 404 with a body that is read, and the answer 404 with a
  body that cannot be read. Both runs exit with status 1 and fetch nothing.
\<close>

theorem status_out_of_range_witness:
  "fst (getCacheDownloadURL env404 sample_codec ''https://api.example/cache'' world0) =
     Inl CacheNotFound \<and>
   fst (main_api env404 sample_codec world0) = 1 \<and>
   fetchSteps (snd (main_api env404 sample_codec world0)) = [] \<and>
   files (snd (main_api env404 sample_codec world0)) = Map.empty \<and>
   fst (getCacheDownloadURL env404_unread sample_codec ''https://api.example/cache'' world0) =
     Inl (FailedReadBody 404 [0x3c]) \<and>
   fst (main_api env404_unread sample_codec world0) = 1 \<and>
   fetchSteps (snd (main_api env404_unread sample_codec world0)) = []"
proof -
  have a: "fst (getCacheDownloadURL env404 sample_codec ''https://api.example/cache'' world0) =
          Inl CacheNotFound \<and>
        fst (downloadFileWithRetry_api env404 sample_codec ''https://api.example/cache'' ''p'' world0) =
          Some CacheNotFound \<and>
        fetchSteps (snd (downloadFileWithRetry_api env404 sample_codec ''https://api.example/cache'' ''p'' world0)) =
          fetchSteps world0 \<and>
        files (snd (downloadFileWithRetry_api env404 sample_codec ''https://api.example/cache'' ''p'' world0)) =
          files world0 \<and>
        fst (main_api env404 sample_codec world0) = 1 \<and>
        fetchSteps (snd (main_api env404 sample_codec world0)) = fetchSteps world0 \<and>
        files (snd (main_api env404 sample_codec world0)) = files world0 \<and>
        last (events (snd (main_api env404 sample_codec world0))) =
          Log '' [!] Unable to download cache: %s'' [AErr CacheNotFound]"
    by (rule status_out_of_range_is_fatal
          [where resp = "\<lparr>StatusCode = 404, Body = \<lparr>sdata = [], serr = None\<rparr>\<rparr>"])
       (simp_all add: env404_def quiet_env_def)
  have b: "fst (getCacheDownloadURL env404_unread sample_codec ''https://api.example/cache'' world0) =
          Inl (FailedReadBody 404 [0x3c]) \<and>
        fst (downloadFileWithRetry_api env404_unread sample_codec ''https://api.example/cache'' ''p'' world0) =
          Some (FailedReadBody 404 [0x3c]) \<and>
        fetchSteps (snd (downloadFileWithRetry_api env404_unread sample_codec ''https://api.example/cache'' ''p'' world0)) =
          fetchSteps world0 \<and>
        files (snd (downloadFileWithRetry_api env404_unread sample_codec ''https://api.example/cache'' ''p'' world0)) =
          files world0 \<and>
        fst (main_api env404_unread sample_codec world0) = 1 \<and>
        fetchSteps (snd (main_api env404_unread sample_codec world0)) = fetchSteps world0 \<and>
        files (snd (main_api env404_unread sample_codec world0)) = files world0 \<and>
        last (events (snd (main_api env404_unread sample_codec world0))) =
          Log '' [!] Unable to download cache: %s'' [AErr (FailedReadBody 404 [0x3c])]"
    by (rule status_out_of_range_is_fatal
          [where resp = "\<lparr>StatusCode = 404,
                           Body = \<lparr>sdata = [0x3c], serr = Some (Lib ''unexpected EOF'')\<rparr>\<rparr>"])
       (simp_all add: env404_unread_def quiet_env_def)
  from a b show ?thesis
    by (simp add: fetchSteps_def world0_def)
qed

text \<open>The claim as stated fails: with the answer 404 the run does not exit with status 0.\<close>

theorem status_404_exits_nonzero:
  "fst (main_api env404 sample_codec world0) \<noteq> 0"
  by (simp add: main_api_def CreateStepParamsFromEnvs_def env404_def quiet_env_def Let_def
      downloadFileWithRetry_api_def getCacheDownloadURL_def world0_def debugLog_def emit_def
      closeLogged_def)

section \<open>Properties of the manual extraction\<close>

lemma untarFile_TypeLink:
  "Typeflag hdr = TypeLink \<Longrightarrow>
   untarFile ev payload hdr w =
     writeNewHardLink ev (Name hdr) (Join (Name hdr) (Linkname hdr)) w"
  by (simp add: untarFile_def TypeLink_def TypeDir_def TypeReg_def TypeRegA_def TypeChar_def
      TypeBlock_def TypeFifo_def TypeSymlink_def)

text \<open>
  For an entry of hard-link kind the parent directory of the entry path is made first,
  and then the link is made; its target is the link name joined to the entry path.
\<close>

lemma hard_link_syscalls:
  "Typeflag hdr = TypeLink \<Longrightarrow>
   filter isSyscall (events (snd (untarFile ev payload hdr w))) =
     filter isSyscall (events w) @
       (if mkdirall_err ev (events w) (Dir (Name hdr)) = None
        then [OsMkdirAll (Dir (Name hdr)) perm0755,
              OsLink (Join (Name hdr) (Linkname hdr)) (Name hdr)]
        else [OsMkdirAll (Dir (Name hdr)) perm0755])"
  by (simp add: untarFile_TypeLink writeNewHardLink_def os_MkdirAll_def os_Link_def emit_def
      split: option.splits)

text \<open>
  C7 at the entry \<^verbatim>\<open>a/b\<close> with the link name \<^verbatim>\<open>c\<close>. The parent directory \<^verbatim>\<open>a\<close> is made
  first, as the claim says. The target of the link is \<^verbatim>\<open>a/b/c\<close>, the link name under
  the entry path itself; resolved against the directory of the entry it is \<^verbatim>\<open>a/c\<close>.
\<close>

theorem hard_link_target_example:
  "events (snd (untarFile quiet_env \<lparr>sdata = [], serr = None\<rparr>
                  \<lparr>Typeflag = TypeLink, Name = ''a/b'', Linkname = ''c'', Mode = 420\<rparr> world0)) =
     [OsMkdirAll ''a'' 493, OsLink ''a/b/c'' ''a/b''] \<and>
   Join (Dir ''a/b'') ''c'' = ''a/c''"
  by (simp add: untarFile_TypeLink writeNewHardLink_def os_MkdirAll_def os_Link_def emit_def
      quiet_env_def world0_def perm0755_def Join_def Dir_def Clean_def clean_step_def)

section \<open>Properties of the placement\<close>

lemma placeContents_mkdirs:
  "filter isOsMkdirAll (events (placeContents ev tmp items w)) =
     filter isOsMkdirAll (events w) @
       map (\<lambda>it. OsMkdirAll (Dir (DestinationPath it)) perm0755) items"
proof (induction items arbitrary: w)
  case Nil
  then show ?case by simp
next
  case (Cons it items)
  show ?case
    by (simp add: Cons.IH Let_def os_MkdirAll_def os_Rename_def debugLog_def emit_def
        split: option.splits)
qed

text \<open>
  One turn of the loop: whatever happens to the item, the loop goes on with the other
  items; the item adds at most one line of a skipped item, and it adds such a line
  unless the move was tried.
\<close>

lemma place_step:
  "\<exists>w'. placeContents ev tmp (it # items) w = placeContents ev tmp items w' \<and>
        skipLogs w' \<le> skipLogs w + 1 \<and>
        skipLogs w + renames w + 1 \<le> skipLogs w' + renames w'"
  by (auto simp: Let_def os_MkdirAll_def os_Rename_def debugLog_def emit_def skipLogs_def
      renames_def split: option.splits)

lemma placeContents_counts:
  "skipLogs (placeContents ev tmp items w) \<le> skipLogs w + length items \<and>
   skipLogs w + renames w + length items \<le>
     skipLogs (placeContents ev tmp items w) + renames (placeContents ev tmp items w)"
proof (induction items arbitrary: w)
  case Nil
  then show ?case by simp
next
  case (Cons it items)
  obtain w' where w': "placeContents ev tmp (it # items) w = placeContents ev tmp items w'"
    "skipLogs w' \<le> skipLogs w + 1" "skipLogs w + renames w + 1 \<le> skipLogs w' + renames w'"
    using place_step [of ev tmp it items w] by blast
  from Cons.IH [of w'] w' show ?case by simp
qed

lemma uncompressCaches_extracted:
  assumes tmp: "tempdir ev (events w) [] = Inr tmp"
    and tar: "\<And>h. snd (run_cmd ev h (Some tmp) ''tar'' [''-xvzf'', cacheFilePath]) = None"
  shows "uncompressCaches ev cacheFilePath cacheInfo w =
           (Inr tmp,
            placeContents ev tmp (Contents cacheInfo)
              (emit (RunCmd (Some tmp) ''tar'' [''-xvzf'', cacheFilePath])
                 (debugLog '' $ tar %s'' [AStrs [''-xvzf'', cacheFilePath]]
                    (debugLog ''=> tmpCacheInfosDirPath: %#v'' [AStr tmp]
                       (emit (TempDir []) w)))))"
proof -
  let ?w2 = "debugLog '' $ tar %s'' [AStrs [''-xvzf'', cacheFilePath]]
              (debugLog ''=> tmpCacheInfosDirPath: %#v'' [AStr tmp] (emit (TempDir []) w))"
  obtain out where "run_cmd ev (events ?w2) (Some tmp) ''tar'' [''-xvzf'', cacheFilePath] = (out, None)"
    using tar [of "events ?w2"]
    by (cases "run_cmd ev (events ?w2) (Some tmp) ''tar'' [''-xvzf'', cacheFilePath]") simp
  then show ?thesis
    using tmp by (simp add: uncompressCaches_def Let_def)
qed

text \<open>The loop goes on with the other items after the turn of one item, however it ends.\<close>

lemma place_compose:
  "placeContents ev tmp (it # others) v = placeContents ev tmp others (placeContents ev tmp [it] v)"
  by (simp add: Let_def os_MkdirAll_def os_Rename_def split: option.splits)

text \<open>What the turn of one item does, step by step.\<close>

lemma place_one_events:
  "events (placeContents ev tmp [it] v) =
     (let v1 = debugLog '' * aCacheContentInfo: %#v'' [AItem it] v;
          srcPath = Join tmp (RelativePathInArchive it);
          targetPath = DestinationPath it;
          targetBaseDir = Dir targetPath
      in events v1 @
         (case mkdirall_err ev (events v1) targetBaseDir of
            Some e \<Rightarrow>
              [OsMkdirAll targetBaseDir perm0755,
               Log '' [!] Failed to create base path (%s) for cache item (%s): %s''
                 [AStr targetBaseDir, AStr srcPath, AErr e]]
          | None \<Rightarrow>
              [OsMkdirAll targetBaseDir perm0755,
               Log '' [MOVE]: %s => %s'' [AStr srcPath, AStr targetPath],
               OsRename srcPath targetPath] @
              (case rename_err ev
                      (events v1 @ [OsMkdirAll targetBaseDir perm0755,
                                    Log '' [MOVE]: %s => %s'' [AStr srcPath, AStr targetPath]])
                      srcPath targetPath of
                 Some e \<Rightarrow>
                   [Log '' [!] Failed to move cache item (%s) to it's place: %s''
                      [AStr srcPath, AErr e]]
               | None \<Rightarrow> [])))"
  by (simp add: Let_def os_MkdirAll_def os_Rename_def emit_def split: option.splits)

text \<open>
  C8, as the code has it. When the temporary directory is made and the tar tool
  succeeds, \<^verbatim>\<open>uncompressCaches\<close> returns the temporary directory and no error, whatever
  happens to the items: the value returned is the path only, it holds no count of
  skipped items. Every item of the manifest is processed, in manifest order: the calls
  of \<^verbatim>\<open>os.MkdirAll\<close> are those for the destination directories of all items, in
  order, and after the turn of any item \<open>it\<close>, in any world \<open>v\<close>, the loop goes on with
  the other items. The turn of an item is: \<^verbatim>\<open>os.MkdirAll\<close> of the destination
  directory; when that fails, the line "Failed to create base path" with the error and
  no move; otherwise the line "[MOVE]" and \<^verbatim>\<open>os.Rename\<close>, and when the move fails, the
  line "Failed to move cache item" with the error. So at most one line per item
  reports a skipped item, and every item whose move was not tried has such a line.
\<close>

theorem placement_never_fails:
  assumes tmp: "tempdir ev (events w) [] = Inr tmp"
    and tar: "\<And>h. snd (run_cmd ev h (Some tmp) ''tar'' [''-xvzf'', cacheFilePath]) = None"
  shows "fst (uncompressCaches ev cacheFilePath cacheInfo w) = Inr tmp \<and>
         filter isOsMkdirAll (events (snd (uncompressCaches ev cacheFilePath cacheInfo w))) =
           filter isOsMkdirAll (events w) @
             map (\<lambda>it. OsMkdirAll (Dir (DestinationPath it)) perm0755) (Contents cacheInfo) \<and>
         skipLogs (snd (uncompressCaches ev cacheFilePath cacheInfo w)) \<le>
           skipLogs w + length (Contents cacheInfo) \<and>
         skipLogs w + renames w + length (Contents cacheInfo) \<le>
           skipLogs (snd (uncompressCaches ev cacheFilePath cacheInfo w)) +
           renames (snd (uncompressCaches ev cacheFilePath cacheInfo w)) \<and>
         placeContents ev tmp (it # others) v =
           placeContents ev tmp others (placeContents ev tmp [it] v) \<and>
         events (placeContents ev tmp [it] v) =
           (let v1 = debugLog '' * aCacheContentInfo: %#v'' [AItem it] v;
                srcPath = Join tmp (RelativePathInArchive it);
                targetPath = DestinationPath it;
                targetBaseDir = Dir targetPath
            in events v1 @
               (case mkdirall_err ev (events v1) targetBaseDir of
                  Some e \<Rightarrow>
                    [OsMkdirAll targetBaseDir perm0755,
                     Log '' [!] Failed to create base path (%s) for cache item (%s): %s''
                       [AStr targetBaseDir, AStr srcPath, AErr e]]
                | None \<Rightarrow>
                    [OsMkdirAll targetBaseDir perm0755,
                     Log '' [MOVE]: %s => %s'' [AStr srcPath, AStr targetPath],
                     OsRename srcPath targetPath] @
                    (case rename_err ev
                            (events v1 @ [OsMkdirAll targetBaseDir perm0755,
                                          Log '' [MOVE]: %s => %s'' [AStr srcPath, AStr targetPath]])
                            srcPath targetPath of
                       Some e \<Rightarrow>
                         [Log '' [!] Failed to move cache item (%s) to it's place: %s''
                            [AStr srcPath, AErr e]]
                     | None \<Rightarrow> [])))"
proof -
  let ?w3 = "emit (RunCmd (Some tmp) ''tar'' [''-xvzf'', cacheFilePath])
               (debugLog '' $ tar %s'' [AStrs [''-xvzf'', cacheFilePath]]
                  (debugLog ''=> tmpCacheInfosDirPath: %#v'' [AStr tmp] (emit (TempDir []) w)))"
  have eq: "uncompressCaches ev cacheFilePath cacheInfo w =
              (Inr tmp, placeContents ev tmp (Contents cacheInfo) ?w3)"
    by (rule uncompressCaches_extracted [OF tmp tar])
  have m: "filter isOsMkdirAll (events ?w3) = filter isOsMkdirAll (events w)"
    by (simp add: debugLog_def emit_def)
  have k: "skipLogs ?w3 = skipLogs w" "renames ?w3 = renames w"
    by (simp_all add: skipLogs_def renames_def debugLog_def emit_def)
  have run: "fst (uncompressCaches ev cacheFilePath cacheInfo w) = Inr tmp \<and>
         filter isOsMkdirAll (events (snd (uncompressCaches ev cacheFilePath cacheInfo w))) =
           filter isOsMkdirAll (events w) @
             map (\<lambda>it. OsMkdirAll (Dir (DestinationPath it)) perm0755) (Contents cacheInfo) \<and>
         skipLogs (snd (uncompressCaches ev cacheFilePath cacheInfo w)) \<le>
           skipLogs w + length (Contents cacheInfo) \<and>
         skipLogs w + renames w + length (Contents cacheInfo) \<le>
           skipLogs (snd (uncompressCaches ev cacheFilePath cacheInfo w)) +
           renames (snd (uncompressCaches ev cacheFilePath cacheInfo w))"
    using placeContents_counts [of ev tmp "Contents cacheInfo" ?w3]
    by (simp add: eq placeContents_mkdirs m k)
  show ?thesis
    using run place_compose [of ev tmp it others v] place_one_events [of ev tmp it v]
    by blast
qed

text \<open>
  An instance: two items, and no move succeeds. The result is the temporary directory,
  both destination directories are made, in order, and two lines report the skips.
\<close>

lemma norename_run:
  "events (snd (uncompressCaches norename_env ''cache.tar.gz'' two_items world0)) =
     [TempDir [], RunCmd (Some ''/tmp/cache-infos'') ''tar'' [''-xvzf'', ''cache.tar.gz''],
      OsMkdirAll ''/home/a'' 493,
      Log '' [MOVE]: %s => %s'' [AStr ''/tmp/cache-infos/x'', AStr ''/home/a/x''],
      OsRename ''/tmp/cache-infos/x'' ''/home/a/x'',
      Log '' [!] Failed to move cache item (%s) to it's place: %s''
        [AStr ''/tmp/cache-infos/x'', AErr (Lib ''no such file or directory'')],
      OsMkdirAll ''/home/b'' 493,
      Log '' [MOVE]: %s => %s'' [AStr ''/tmp/cache-infos/y'', AStr ''/home/b/y''],
      OsRename ''/tmp/cache-infos/y'' ''/home/b/y'',
      Log '' [!] Failed to move cache item (%s) to it's place: %s''
        [AStr ''/tmp/cache-infos/y'', AErr (Lib ''no such file or directory'')]]"
  by (simp add: uncompressCaches_def norename_env_def quiet_env_def world0_def two_items_def
      Let_def debugLog_def emit_def os_MkdirAll_def os_Rename_def perm0755_def
      Join_def Dir_def Clean_def clean_step_def)

theorem placement_never_fails_witness:
  "fst (uncompressCaches norename_env ''cache.tar.gz'' two_items world0) = Inr ''/tmp/cache-infos'' \<and>
   filter isOsMkdirAll (events (snd (uncompressCaches norename_env ''cache.tar.gz'' two_items world0))) =
     [OsMkdirAll ''/home/a'' 493, OsMkdirAll ''/home/b'' 493] \<and>
   skipLogs (snd (uncompressCaches norename_env ''cache.tar.gz'' two_items world0)) = 2 \<and>
   events (placeContents norename_env ''/tmp/cache-infos''
             [\<lparr>DestinationPath = ''/home/a/x'', RelativePathInArchive = ''x''\<rparr>] world0) =
     [OsMkdirAll ''/home/a'' 493,
      Log '' [MOVE]: %s => %s'' [AStr ''/tmp/cache-infos/x'', AStr ''/home/a/x''],
      OsRename ''/tmp/cache-infos/x'' ''/home/a/x'',
      Log '' [!] Failed to move cache item (%s) to it's place: %s''
        [AStr ''/tmp/cache-infos/x'', AErr (Lib ''no such file or directory'')]]"
proof -
  have h1: "tempdir norename_env (events world0) [] = Inr ''/tmp/cache-infos''"
    by (simp add: norename_env_def quiet_env_def)
  have h2: "snd (run_cmd norename_env h (Some ''/tmp/cache-infos'') ''tar'' [''-xvzf'', ''cache.tar.gz'']) = None"
    for h
    by (simp add: norename_env_def quiet_env_def)
  note t = placement_never_fails
    [of norename_env world0 "''/tmp/cache-infos''" "''cache.tar.gz''" two_items
        "\<lparr>DestinationPath = ''/home/a/x'', RelativePathInArchive = ''x''\<rparr>" "[]" world0,
     OF h1 h2]
  have one: "events (placeContents norename_env ''/tmp/cache-infos''
             [\<lparr>DestinationPath = ''/home/a/x'', RelativePathInArchive = ''x''\<rparr>] world0) =
     [OsMkdirAll ''/home/a'' 493,
      Log '' [MOVE]: %s => %s'' [AStr ''/tmp/cache-infos/x'', AStr ''/home/a/x''],
      OsRename ''/tmp/cache-infos/x'' ''/home/a/x'',
      Log '' [!] Failed to move cache item (%s) to it's place: %s''
        [AStr ''/tmp/cache-infos/x'', AErr (Lib ''no such file or directory'')]]"
    using t
    by (simp add: Let_def norename_env_def quiet_env_def world0_def debugLog_def perm0755_def
        Join_def Dir_def Clean_def clean_step_def del: placeContents.simps)
  from t have "fst (uncompressCaches norename_env ''cache.tar.gz'' two_items world0) =
      Inr ''/tmp/cache-infos''" by blast
  then show ?thesis
    using one by (simp add: norename_run skipLogs_def)
qed

text \<open>
  The claim as stated fails in its last part: a run that skips no item and a run that
  skips both items return the same value, so the value returned is no count of the
  skipped items.
\<close>

theorem placement_returns_no_count:
  "fst (uncompressCaches quiet_env ''cache.tar.gz'' two_items world0) =
     fst (uncompressCaches norename_env ''cache.tar.gz'' two_items world0) \<and>
   skipLogs (snd (uncompressCaches quiet_env ''cache.tar.gz'' two_items world0)) = 0 \<and>
   skipLogs (snd (uncompressCaches norename_env ''cache.tar.gz'' two_items world0)) = 2"
proof (intro conjI)
  show "fst (uncompressCaches quiet_env ''cache.tar.gz'' two_items world0) =
     fst (uncompressCaches norename_env ''cache.tar.gz'' two_items world0)"
    by (simp add: uncompressCaches_def norename_env_def quiet_env_def Let_def)
  show "skipLogs (snd (uncompressCaches quiet_env ''cache.tar.gz'' two_items world0)) = 0"
    by (simp add: uncompressCaches_def quiet_env_def world0_def two_items_def
        Let_def debugLog_def emit_def os_MkdirAll_def os_Rename_def skipLogs_def)
  show "skipLogs (snd (uncompressCaches norename_env ''cache.tar.gz'' two_items world0)) = 2"
    by (simp add: norename_run skipLogs_def)
qed

end
